theory Spec2Isabelle
  imports Complex_Main
begin

section \<open>The execution host\<close>

text \<open>
  The contracts run on the EVM under Solidity 0.8: every \<open>uint256\<close> operation is
  checked, so an overflow, an underflow or a division by zero aborts the call with a
  panic, and a failed \<open>require\<close> aborts it with its message. A call that aborts has no
  effect at all; a call that returns yields the new contract state and the events it
  logged. Values of type \<open>uint256\<close> are natural numbers below \<open>2 ^ 256\<close>, an
  \<open>address\<close> is a number whose value 0 is \<open>address(0)\<close>.
\<close>

type_synonym address = nat

datatype error =
    Revert string
  | Panic nat
  | ERC721NonexistentToken nat
  | ERC721InsufficientApproval address nat
  | ERC721InvalidReceiver address
  | ERC721InvalidSender address
  | ERC721IncorrectOwner address nat address
  | ERC721InvalidApprover address
  | ERC721InvalidOperator address
  | OwnableUnauthorizedAccount address
  | OwnableInvalidOwner address

text \<open>
  What a call sees of its transaction. The value sent along is an argument of the
  payable functions only (\<open>msg_value\<close>): the others cannot be called with one.
\<close>

record env =
  msg_sender :: address
  block_timestamp :: nat

definition and_then :: "error + 'a \<Rightarrow> ('a \<Rightarrow> error + 'b) \<Rightarrow> error + 'b" where
  "and_then r k = (case r of Inl e \<Rightarrow> Inl e | Inr x \<Rightarrow> k x)"

definition checked_add :: "nat \<Rightarrow> nat \<Rightarrow> error + nat" where
  "checked_add a b = (if a + b < 2 ^ 256 then Inr (a + b) else Inl (Panic 17))"

definition checked_sub :: "nat \<Rightarrow> nat \<Rightarrow> error + nat" where
  "checked_sub a b = (if b \<le> a then Inr (a - b) else Inl (Panic 17))"

definition checked_mul :: "nat \<Rightarrow> nat \<Rightarrow> error + nat" where
  "checked_mul a b = (if a * b < 2 ^ 256 then Inr (a * b) else Inl (Panic 17))"

definition checked_div :: "nat \<Rightarrow> nat \<Rightarrow> error + nat" where
  "checked_div a b = (if b = 0 then Inl (Panic 18) else Inr (a div b))"

definition ether :: nat where
  "ether = 10 ^ 18"

text \<open>The host keeps the state and logs nothing when a call aborts.\<close>

definition commit :: "'s \<Rightarrow> error + 's \<times> 'ev list \<Rightarrow> 's \<times> 'ev list" where
  "commit s r = (case r of Inl e \<Rightarrow> (s, []) | Inr (s', evs) \<Rightarrow> (s', evs))"


section \<open>NodeRegistry and Participation\<close>

record Node =
  owner :: address
  metadata :: string
  registeredAt :: nat

record Stats =
  uptime :: nat
  lastUpdate :: nat
  earned :: nat

record Participation =
  nodes :: "nat \<Rightarrow> Node"
  nextId :: nat
  stats :: "nat \<Rightarrow> Stats"
  nodeStakes :: "nat \<Rightarrow> nat"

datatype ledger_event =
    NodeRegistered nat address nat
  | UptimeRecorded nat nat nat
  | RewardClaimed nat address nat nat
  | StakeUpdated nat address nat nat

text \<open>A freshly deployed contract: every mapping entry is zero.\<close>

definition deploy_Participation :: Participation where
  "deploy_Participation =
     \<lparr>nodes = (\<lambda>_. \<lparr>owner = 0, metadata = [], registeredAt = 0\<rparr>),
      nextId = 0,
      stats = (\<lambda>_. \<lparr>uptime = 0, lastUpdate = 0, earned = 0\<rparr>),
      nodeStakes = (\<lambda>_. 0)\<rparr>"

definition registerNode ::
  "env \<Rightarrow> string \<Rightarrow> Participation \<Rightarrow> error + Participation \<times> ledger_event list" where
  "registerNode e md s =
     (let s1 = s\<lparr>nodes := (nodes s)(nextId s :=
                  \<lparr>owner = msg_sender e, metadata = md, registeredAt = block_timestamp e\<rparr>)\<rparr>;
          evs = [NodeRegistered (nextId s) (msg_sender e) (block_timestamp e)]
      in and_then (checked_add (nextId s1) 1) (\<lambda>n. Inr (s1\<lparr>nextId := n\<rparr>, evs)))"

definition recordUptime ::
  "env \<Rightarrow> nat \<Rightarrow> nat \<Rightarrow> Participation \<Rightarrow> error + Participation \<times> ledger_event list" where
  "recordUptime e nodeId minutesUp s =
     and_then (checked_add (uptime (stats s nodeId)) minutesUp) (\<lambda>u.
       let s1 = s\<lparr>stats := (stats s)(nodeId := (stats s nodeId)\<lparr>uptime := u\<rparr>)\<rparr>;
           s2 = s1\<lparr>stats := (stats s1)(nodeId :=
                   (stats s1 nodeId)\<lparr>lastUpdate := block_timestamp e\<rparr>)\<rparr>
       in and_then (checked_add (earned (stats s2 nodeId)) minutesUp) (\<lambda>a.
            let s3 = s2\<lparr>stats := (stats s2)(nodeId := (stats s2 nodeId)\<lparr>earned := a\<rparr>)\<rparr>
            in Inr (s3, [UptimeRecorded nodeId minutesUp (block_timestamp e)])))"

definition claimReward ::
  "env \<Rightarrow> nat \<Rightarrow> Participation \<Rightarrow> error + Participation \<times> ledger_event list" where
  "claimReward e nodeId s =
     (if \<not> (owner (nodes s nodeId) = msg_sender e) then Inl (Revert ''Not owner'')
      else let amount = earned (stats s nodeId);
               s1 = s\<lparr>stats := (stats s)(nodeId := (stats s nodeId)\<lparr>earned := 0\<rparr>)\<rparr>
           in Inr (s1, [RewardClaimed nodeId (msg_sender e) amount (block_timestamp e)]))"

definition stakeToNode ::
  "env \<Rightarrow> nat \<Rightarrow> nat \<Rightarrow> Participation \<Rightarrow> error + Participation \<times> ledger_event list" where
  "stakeToNode e msg_value nodeId s =
     (if \<not> (msg_value > 0) then Inl (Revert ''Send funds'')
      else and_then (checked_add (nodeStakes s nodeId) msg_value) (\<lambda>v.
             Inr (s\<lparr>nodeStakes := (nodeStakes s)(nodeId := v)\<rparr>,
                  [StakeUpdated nodeId (msg_sender e) msg_value (block_timestamp e)])))"


section \<open>NodeRightsNFT\<close>

datatype NodeType = STORAGE | COMPUTE | BANDWIDTH

datatype NodeStatus = ACTIVE | SLASHED_MINOR | SLASHED_MAJOR | TERMINATED

record NodeRights =
  nodeType :: NodeType
  stakedETH :: nat
  stakedDPN :: nat
  mintedAt :: nat
  lastRewardClaim :: nat
  status :: NodeStatus
  totalUptime :: nat
  performanceScore :: nat
  metadata :: string
  isUpgraded :: bool

record NodeTypeConfig =
  minETHStake :: nat
  minDPNStake :: nat
  baseRewardRate :: nat
  maxCapacity :: nat
  isActive :: bool

datatype event =
    NodeRightsMinted nat address NodeType nat nat
  | NodeUpgraded nat nat nat nat
  | PerformanceUpdated nat nat nat NodeStatus
  | NodeSlashed nat NodeStatus nat string
  | CrossChainBridge nat string address
  | Transfer address address nat
  | Approval address address nat
  | ApprovalForAll address address bool
  | OwnershipTransferred address address

text \<open>
  The contract's storage. \<open>owners\<close>, \<open>tokenApprovals\<close> and \<open>operatorApprovals\<close> are
  the token ledger of the inherited ERC721 (\<open>_owners\<close>, \<open>_tokenApprovals\<close>,
  \<open>_operatorApprovals\<close>), \<open>contract_owner\<close> is the administrator kept by the inherited
  Ownable (\<open>owner()\<close>).
\<close>

record NodeRightsNFT =
  tokenIdCounter :: nat
  nodeRights :: "nat \<Rightarrow> NodeRights"
  nodeTypeConfigs :: "NodeType \<Rightarrow> NodeTypeConfig"
  ownerNodes :: "address \<Rightarrow> nat list"
  crossChainBridges :: "nat \<Rightarrow> string"
  lastPerformanceUpdate :: "nat \<Rightarrow> nat"
  participationContract :: address
  dpnTokenContract :: address
  owners :: "nat \<Rightarrow> address"
  tokenApprovals :: "nat \<Rightarrow> address"
  operatorApprovals :: "address \<Rightarrow> address \<Rightarrow> bool"
  contract_owner :: address

definition PERFORMANCE_DECIMALS :: nat where
  "PERFORMANCE_DECIMALS = 10000"

definition setupNodeTypes :: "NodeType \<Rightarrow> NodeTypeConfig" where
  "setupNodeTypes t =
     (case t of
        STORAGE \<Rightarrow> \<lparr>minETHStake = 1 * ether, minDPNStake = 1000 * ether,
                    baseRewardRate = 11574074074074, maxCapacity = 1000, isActive = True\<rparr>
      | COMPUTE \<Rightarrow> \<lparr>minETHStake = 2 * ether, minDPNStake = 2000 * ether,
                    baseRewardRate = 34722222222222, maxCapacity = 500, isActive = True\<rparr>
      | BANDWIDTH \<Rightarrow> \<lparr>minETHStake = ether div 2, minDPNStake = 500 * ether,
                      baseRewardRate = 17361111111111, maxCapacity = 2000, isActive = True\<rparr>)"

text \<open>The constructor: the deployer becomes the administrator, every mapping entry is zero.\<close>

definition deploy_NodeRightsNFT :: "address \<Rightarrow> NodeRightsNFT" where
  "deploy_NodeRightsNFT deployer =
     \<lparr>tokenIdCounter = 0,
      nodeRights = (\<lambda>_. \<lparr>nodeType = STORAGE, stakedETH = 0, stakedDPN = 0, mintedAt = 0,
                           lastRewardClaim = 0, status = ACTIVE, totalUptime = 0,
                           performanceScore = 0, metadata = [], isUpgraded = False\<rparr>),
      nodeTypeConfigs = setupNodeTypes,
      ownerNodes = (\<lambda>_. []),
      crossChainBridges = (\<lambda>_. []),
      lastPerformanceUpdate = (\<lambda>_. 0),
      participationContract = 0,
      dpnTokenContract = 0,
      owners = (\<lambda>_. 0),
      tokenApprovals = (\<lambda>_. 0),
      operatorApprovals = (\<lambda>_ _. False),
      contract_owner = deployer\<rparr>"

subsection \<open>The inherited token ledger\<close>

text \<open>
  Modelled from the spec: the ERC721 base contract (OpenZeppelin v5) is a dependency and
  not part of the sources. The spec asks for standard non-fungible, single-owner,
  transferable-asset semantics with token\<rightarrow>owner as the canonical relation; the functions
  below are that ledger: who owns a token, who may move it, and the base \<open>_update\<close>
  that moves it. Balances and the enumeration of the inherited ERC721Enumerable are not
  read by any function studied here and are left out.
\<close>

definition ownerOf :: "NodeRightsNFT \<Rightarrow> nat \<Rightarrow> address" where
  "ownerOf s tokenId = owners s tokenId"

definition isAuthorized :: "NodeRightsNFT \<Rightarrow> address \<Rightarrow> address \<Rightarrow> nat \<Rightarrow> bool" where
  "isAuthorized s ownr spender tokenId =
     (spender \<noteq> 0 \<and>
      (ownr = spender \<or> operatorApprovals s ownr spender \<or> tokenApprovals s tokenId = spender))"

definition super_update ::
  "address \<Rightarrow> nat \<Rightarrow> address \<Rightarrow> NodeRightsNFT \<Rightarrow> error + address \<times> NodeRightsNFT \<times> event list" where
  "super_update to tokenId auth s =
     (let from = ownerOf s tokenId in
      if auth \<noteq> 0 \<and> \<not> isAuthorized s from auth tokenId then
        (if from = 0 then Inl (ERC721NonexistentToken tokenId)
         else Inl (ERC721InsufficientApproval auth tokenId))
      else
        let s1 = (if from \<noteq> 0 then s\<lparr>tokenApprovals := (tokenApprovals s)(tokenId := 0)\<rparr> else s);
            s2 = s1\<lparr>owners := (owners s1)(tokenId := to)\<rparr>
        in Inr (from, s2, [Transfer from to tokenId]))"

subsection \<open>Internal functions\<close>

definition evaluateNodeStatus :: "nat \<Rightarrow> NodeStatus" where
  "evaluateNodeStatus score =
     (if score \<ge> 9000 then ACTIVE
      else if score \<ge> 5000 then SLASHED_MINOR
      else if score \<ge> 2000 then SLASHED_MAJOR
      else TERMINATED)"

definition min_uint :: "nat \<Rightarrow> nat \<Rightarrow> nat" where
  "min_uint a b = (if a < b then a else b)"

text \<open>
  \<open>_applySlashing\<close>: the status is written first, then the penalty of the tier is taken
  from the token stake.
\<close>

definition applySlashing ::
  "nat \<Rightarrow> NodeStatus \<Rightarrow> NodeRightsNFT \<Rightarrow> error + NodeRightsNFT \<times> event list" where
  "applySlashing tokenId newStatus s =
     (let node = (nodeRights s tokenId)\<lparr>status := newStatus\<rparr> in
      and_then
        (if newStatus = SLASHED_MINOR then
           and_then (checked_mul (stakedDPN node) 5) (\<lambda>m.
             Inr (''Low performance (50-90%)'', m div 100))
         else if newStatus = SLASHED_MAJOR then
           and_then (checked_mul (stakedDPN node) 15) (\<lambda>m.
             Inr (''Poor performance (20-50%)'', m div 100))
         else if newStatus = TERMINATED then
           Inr (''Critical failure (<20%)'', stakedDPN node)
         else Inr ([], 0))
        (\<lambda>(reason, penalty).
           and_then
             (if penalty > 0 then checked_sub (stakedDPN node) penalty
              else Inr (stakedDPN node))
             (\<lambda>d. Inr (s\<lparr>nodeRights := (nodeRights s)(tokenId := node\<lparr>stakedDPN := d\<rparr>)\<rparr>,
                        [NodeSlashed tokenId newStatus penalty reason]))))"

text \<open>\<open>_calculatePendingRewards\<close>, a view: it reads the state at the block's time.\<close>

definition calculatePendingRewards :: "env \<Rightarrow> nat \<Rightarrow> NodeRightsNFT \<Rightarrow> error + nat" where
  "calculatePendingRewards e tokenId s =
     (let node = nodeRights s tokenId;
          config = nodeTypeConfigs s (nodeType node)
      in if status node \<noteq> ACTIVE then Inr 0
         else
           and_then (checked_sub (block_timestamp e) (lastRewardClaim node)) (\<lambda>timeElapsed.
           and_then (checked_mul (baseRewardRate config) timeElapsed) (\<lambda>baseReward.
           and_then (checked_mul baseReward (performanceScore node)) (\<lambda>scaled.
             let adjustedReward = scaled div PERFORMANCE_DECIMALS in
             and_then (checked_sub (stakedETH node) (minETHStake config)) (\<lambda>excess.
             and_then (checked_mul excess 1000) (\<lambda>excess1000.
             and_then (checked_div excess1000 (minETHStake config)) (\<lambda>bonus.
             and_then (checked_add PERFORMANCE_DECIMALS bonus) (\<lambda>stakingMultiplier.
             and_then (checked_mul adjustedReward stakingMultiplier) (\<lambda>total.
               Inr (total div PERFORMANCE_DECIMALS))))))))))"

text \<open>
  The loop of \<open>_update\<close> over the previous owner's list: the first entry equal to the
  token is overwritten with the last entry and the list loses its last element.
\<close>

function removeFromNodes :: "nat \<Rightarrow> nat \<Rightarrow> nat list \<Rightarrow> nat list" where
  "removeFromNodes i tokenId fromNodes =
     (if i < length fromNodes then
        (if fromNodes ! i = tokenId then
           butlast (fromNodes[i := fromNodes ! (length fromNodes - 1)])
         else removeFromNodes (i + 1) tokenId fromNodes)
      else fromNodes)"
  by pat_completeness auto
termination
  by (relation "measure (\<lambda>(i, tokenId, fromNodes). length fromNodes - i)") auto

declare removeFromNodes.simps [simp del]

text \<open>\<open>_update\<close>, the override: the base ledger moves the token, then the index follows.\<close>

definition update ::
  "address \<Rightarrow> nat \<Rightarrow> address \<Rightarrow> NodeRightsNFT \<Rightarrow> error + address \<times> NodeRightsNFT \<times> event list" where
  "update to tokenId auth s =
     and_then (super_update to tokenId auth s) (\<lambda>(previousOwner, s1, evs).
       if previousOwner \<noteq> 0 \<and> to \<noteq> 0 \<and> previousOwner \<noteq> to then
         let s2 = s1\<lparr>ownerNodes := (ownerNodes s1)(previousOwner :=
                       removeFromNodes 0 tokenId (ownerNodes s1 previousOwner))\<rparr>;
             s3 = s2\<lparr>ownerNodes := (ownerNodes s2)(to := ownerNodes s2 to @ [tokenId])\<rparr>
         in Inr (previousOwner, s3, evs)
       else Inr (previousOwner, s1, evs))"

text \<open>
  Modelled from the spec: \<open>_safeMint\<close> of the ERC721 base contract, which mints through
  \<open>_update\<close> and refuses the zero address and a token that already has an owner. The
  receiver is taken to accept the token.
\<close>

definition safeMint ::
  "address \<Rightarrow> nat \<Rightarrow> NodeRightsNFT \<Rightarrow> error + NodeRightsNFT \<times> event list" where
  "safeMint to tokenId s =
     (if to = 0 then Inl (ERC721InvalidReceiver 0)
      else and_then (update to tokenId 0 s) (\<lambda>(previousOwner, s1, evs).
             if previousOwner \<noteq> 0 then Inl (ERC721InvalidSender 0) else Inr (s1, evs)))"


subsection \<open>Core functions\<close>

definition mintNodeRights ::
  "env \<Rightarrow> nat \<Rightarrow> NodeType \<Rightarrow> nat \<Rightarrow> string \<Rightarrow> NodeRightsNFT
     \<Rightarrow> error + NodeRightsNFT \<times> event list" where
  "mintNodeRights e msg_value ntype dpnStakeAmount md s =
     (let config = nodeTypeConfigs s ntype in
      if \<not> isActive config then Inl (Revert ''Node type not active'')
      else if \<not> (msg_value \<ge> minETHStake config) then Inl (Revert ''Insufficient ETH stake'')
      else if \<not> (dpnStakeAmount \<ge> minDPNStake config) then
        Inl (Revert ''Insufficient DPN stake'')
      else
        let tokenId = tokenIdCounter s in
        and_then (checked_add (tokenIdCounter s) 1) (\<lambda>c.
          let s1 = s\<lparr>tokenIdCounter := c\<rparr>;
              s2 = s1\<lparr>nodeRights := (nodeRights s1)(tokenId :=
                     \<lparr>nodeType = ntype, stakedETH = msg_value, stakedDPN = dpnStakeAmount,
                      mintedAt = block_timestamp e, lastRewardClaim = block_timestamp e,
                      status = ACTIVE, totalUptime = 0,
                      performanceScore = PERFORMANCE_DECIMALS, metadata = md,
                      isUpgraded = False\<rparr>)\<rparr>;
              s3 = s2\<lparr>ownerNodes := (ownerNodes s2)(msg_sender e :=
                     ownerNodes s2 (msg_sender e) @ [tokenId])\<rparr>
          in and_then (safeMint (msg_sender e) tokenId s3) (\<lambda>(s4, evs).
               Inr (s4, evs @ [NodeRightsMinted tokenId (msg_sender e) ntype msg_value
                                 dpnStakeAmount]))))"

definition upgradeNode ::
  "env \<Rightarrow> nat \<Rightarrow> nat \<Rightarrow> nat \<Rightarrow> NodeRightsNFT \<Rightarrow> error + NodeRightsNFT \<times> event list" where
  "upgradeNode e msg_value tokenId additionalDPN s =
     (if \<not> (ownerOf s tokenId \<noteq> 0) then Inl (Revert ''Node does not exist'')
      else if \<not> (ownerOf s tokenId = msg_sender e) then Inl (Revert ''Not node owner'')
      else if \<not> (status (nodeRights s tokenId) = ACTIVE) then Inl (Revert ''Node not active'')
      else
        let node = nodeRights s tokenId in
        and_then (checked_add (stakedETH node) msg_value) (\<lambda>eth.
        and_then (checked_add (stakedDPN node) additionalDPN) (\<lambda>dpn.
          let node1 = node\<lparr>stakedETH := eth, stakedDPN := dpn, isUpgraded := True\<rparr> in
          and_then (checked_mul msg_value 100) (\<lambda>v100.
          and_then (checked_div v100 (stakedETH node1)) (\<lambda>performanceBoost.
          and_then (checked_add (performanceScore node1) performanceBoost) (\<lambda>boosted.
            let node2 = node1\<lparr>performanceScore :=
                          min_uint boosted (PERFORMANCE_DECIMALS * 12 div 10)\<rparr>
            in Inr (s\<lparr>nodeRights := (nodeRights s)(tokenId := node2)\<rparr>,
                    [NodeUpgraded tokenId msg_value additionalDPN
                       (performanceScore node2)])))))))"

definition updatePerformance ::
  "env \<Rightarrow> nat \<Rightarrow> nat \<Rightarrow> nat \<Rightarrow> NodeRightsNFT \<Rightarrow> error + NodeRightsNFT \<times> event list" where
  "updatePerformance e tokenId uptimeSeconds score s =
     (if \<not> (ownerOf s tokenId \<noteq> 0) then Inl (Revert ''Node does not exist'')
      else if \<not> (msg_sender e = contract_owner s \<or> msg_sender e = participationContract s)
      then Inl (Revert ''Unauthorized'')
      else
        let node = nodeRights s tokenId in
        if \<not> (status node \<noteq> TERMINATED) then Inl (Revert ''Node terminated'')
        else
          and_then (checked_add (totalUptime node) uptimeSeconds) (\<lambda>u.
            let node1 = node\<lparr>totalUptime := u, performanceScore := score\<rparr>;
                s1 = s\<lparr>nodeRights := (nodeRights s)(tokenId := node1),
                       lastPerformanceUpdate :=
                         (lastPerformanceUpdate s)(tokenId := block_timestamp e)\<rparr>;
                newStatus = evaluateNodeStatus score
            in and_then
                 (if newStatus \<noteq> status (nodeRights s1 tokenId)
                  then applySlashing tokenId newStatus s1 else Inr (s1, []))
                 (\<lambda>(s2, evs).
                    Inr (s2, evs @ [PerformanceUpdated tokenId score uptimeSeconds
                                      (status (nodeRights s2 tokenId))]))))"

definition bridgeToChain ::
  "env \<Rightarrow> nat \<Rightarrow> string \<Rightarrow> NodeRightsNFT \<Rightarrow> error + NodeRightsNFT \<times> event list" where
  "bridgeToChain e tokenId destinationChain s =
     (if \<not> (ownerOf s tokenId \<noteq> 0) then Inl (Revert ''Node does not exist'')
      else if \<not> (ownerOf s tokenId = msg_sender e) then Inl (Revert ''Not node owner'')
      else Inr (s\<lparr>crossChainBridges := (crossChainBridges s)(tokenId := destinationChain)\<rparr>,
                [CrossChainBridge tokenId destinationChain (msg_sender e)]))"

subsection \<open>View functions\<close>

definition getNodeDetails ::
  "env \<Rightarrow> nat \<Rightarrow> NodeRightsNFT \<Rightarrow> error + NodeRights \<times> NodeTypeConfig \<times> nat \<times> nat" where
  "getNodeDetails e tokenId s =
     (if \<not> (ownerOf s tokenId \<noteq> 0) then Inl (Revert ''Node does not exist'')
      else
        let node = nodeRights s tokenId;
            config = nodeTypeConfigs s (nodeType node)
        in and_then (checked_sub (block_timestamp e) (mintedAt node)) (\<lambda>timeStaked.
           and_then (calculatePendingRewards e tokenId s) (\<lambda>estimatedRewards.
             Inr (node, config, timeStaked, estimatedRewards))))"

definition getOwnerNodes :: "NodeRightsNFT \<Rightarrow> address \<Rightarrow> nat list" where
  "getOwnerNodes s a = ownerNodes s a"

subsection \<open>Admin functions\<close>

definition setParticipationContract ::
  "env \<Rightarrow> address \<Rightarrow> NodeRightsNFT \<Rightarrow> error + NodeRightsNFT \<times> event list" where
  "setParticipationContract e participation s =
     (if contract_owner s \<noteq> msg_sender e then Inl (OwnableUnauthorizedAccount (msg_sender e))
      else Inr (s\<lparr>participationContract := participation\<rparr>, []))"

definition setDPNTokenContract ::
  "env \<Rightarrow> address \<Rightarrow> NodeRightsNFT \<Rightarrow> error + NodeRightsNFT \<times> event list" where
  "setDPNTokenContract e dpnToken s =
     (if contract_owner s \<noteq> msg_sender e then Inl (OwnableUnauthorizedAccount (msg_sender e))
      else Inr (s\<lparr>dpnTokenContract := dpnToken\<rparr>, []))"

definition updateNodeTypeConfig ::
  "env \<Rightarrow> NodeType \<Rightarrow> nat \<Rightarrow> nat \<Rightarrow> nat \<Rightarrow> bool \<Rightarrow> NodeRightsNFT
     \<Rightarrow> error + NodeRightsNFT \<times> event list" where
  "updateNodeTypeConfig e ntype minETH minDPN rate active s =
     (if contract_owner s \<noteq> msg_sender e then Inl (OwnableUnauthorizedAccount (msg_sender e))
      else
        let config = (nodeTypeConfigs s ntype)\<lparr>minETHStake := minETH, minDPNStake := minDPN,
                        baseRewardRate := rate, isActive := active\<rparr>
        in Inr (s\<lparr>nodeTypeConfigs := (nodeTypeConfigs s)(ntype := config)\<rparr>, []))"

text \<open>
  Modelled from the spec: the public functions the contract inherits unchanged from the
  ERC721 and Ownable base contracts (a dependency, not part of the sources): moving a
  token, granting approvals, handing over or renouncing the administrator role.
  \<open>transferFrom\<close> goes through the overriding \<open>_update\<close> above.
\<close>

definition transferFrom ::
  "env \<Rightarrow> address \<Rightarrow> address \<Rightarrow> nat \<Rightarrow> NodeRightsNFT \<Rightarrow> error + NodeRightsNFT \<times> event list" where
  "transferFrom e from to tokenId s =
     (if to = 0 then Inl (ERC721InvalidReceiver 0)
      else and_then (update to tokenId (msg_sender e) s) (\<lambda>(previousOwner, s1, evs).
             if previousOwner \<noteq> from then Inl (ERC721IncorrectOwner from tokenId previousOwner)
             else Inr (s1, evs)))"

definition approve ::
  "env \<Rightarrow> address \<Rightarrow> nat \<Rightarrow> NodeRightsNFT \<Rightarrow> error + NodeRightsNFT \<times> event list" where
  "approve e to tokenId s =
     (let ownr = ownerOf s tokenId in
      if ownr = 0 then Inl (ERC721NonexistentToken tokenId)
      else if msg_sender e \<noteq> 0 \<and> ownr \<noteq> msg_sender e \<and> \<not> operatorApprovals s ownr (msg_sender e)
      then Inl (ERC721InvalidApprover (msg_sender e))
      else Inr (s\<lparr>tokenApprovals := (tokenApprovals s)(tokenId := to)\<rparr>,
                [Approval ownr to tokenId]))"

definition setApprovalForAll ::
  "env \<Rightarrow> address \<Rightarrow> bool \<Rightarrow> NodeRightsNFT \<Rightarrow> error + NodeRightsNFT \<times> event list" where
  "setApprovalForAll e operator approved s =
     (if operator = 0 then Inl (ERC721InvalidOperator operator)
      else Inr (s\<lparr>operatorApprovals := (operatorApprovals s)(msg_sender e :=
                     (operatorApprovals s (msg_sender e))(operator := approved))\<rparr>,
                [ApprovalForAll (msg_sender e) operator approved]))"

definition transferOwnership ::
  "env \<Rightarrow> address \<Rightarrow> NodeRightsNFT \<Rightarrow> error + NodeRightsNFT \<times> event list" where
  "transferOwnership e newOwner s =
     (if contract_owner s \<noteq> msg_sender e then Inl (OwnableUnauthorizedAccount (msg_sender e))
      else if newOwner = 0 then Inl (OwnableInvalidOwner 0)
      else Inr (s\<lparr>contract_owner := newOwner\<rparr>,
                [OwnershipTransferred (contract_owner s) newOwner]))"

definition renounceOwnership ::
  "env \<Rightarrow> NodeRightsNFT \<Rightarrow> error + NodeRightsNFT \<times> event list" where
  "renounceOwnership e s =
     (if contract_owner s \<noteq> msg_sender e then Inl (OwnableUnauthorizedAccount (msg_sender e))
      else Inr (s\<lparr>contract_owner := 0\<rparr>, [OwnershipTransferred (contract_owner s) 0]))"

subsection \<open>Transactions and reachable states\<close>

datatype call =
    MintNodeRights nat NodeType nat string
  | UpgradeNode nat nat nat
  | UpdatePerformance nat nat nat
  | BridgeToChain nat string
  | TransferFrom address address nat
  | Approve address nat
  | SetApprovalForAll address bool
  | SetParticipationContract address
  | SetDPNTokenContract address
  | UpdateNodeTypeConfig NodeType nat nat nat bool
  | TransferOwnership address
  | RenounceOwnership

fun exec :: "env \<Rightarrow> call \<Rightarrow> NodeRightsNFT \<Rightarrow> error + NodeRightsNFT \<times> event list" where
  "exec e (MintNodeRights v t d md) s = mintNodeRights e v t d md s"
| "exec e (UpgradeNode v tokenId d) s = upgradeNode e v tokenId d s"
| "exec e (UpdatePerformance tokenId u p) s = updatePerformance e tokenId u p s"
| "exec e (BridgeToChain tokenId c) s = bridgeToChain e tokenId c s"
| "exec e (TransferFrom from to tokenId) s = transferFrom e from to tokenId s"
| "exec e (Approve to tokenId) s = approve e to tokenId s"
| "exec e (SetApprovalForAll operator approved) s = setApprovalForAll e operator approved s"
| "exec e (SetParticipationContract a) s = setParticipationContract e a s"
| "exec e (SetDPNTokenContract a) s = setDPNTokenContract e a s"
| "exec e (UpdateNodeTypeConfig t a b c d) s = updateNodeTypeConfig e t a b c d s"
| "exec e (TransferOwnership a) s = transferOwnership e a s"
| "exec e RenounceOwnership s = renounceOwnership e s"

text \<open>
  One transaction leads from \<open>s\<close> to \<open>s'\<close> when some caller (never the zero address)
  makes a call that returns. \<open>reaches\<close> is any number of transactions, \<open>reachable\<close> is
  what any number of transactions make of a fresh deployment.
\<close>

inductive reaches :: "NodeRightsNFT \<Rightarrow> NodeRightsNFT \<Rightarrow> bool" where
  reaches_refl: "reaches s s"
| reaches_step:
    "reaches s s1 \<Longrightarrow> msg_sender e \<noteq> 0 \<Longrightarrow> exec e c s1 = Inr (s2, evs) \<Longrightarrow> reaches s s2"

definition reachable :: "NodeRightsNFT \<Rightarrow> bool" where
  "reachable s = (\<exists>deployer. deployer \<noteq> 0 \<and> reaches (deploy_NodeRightsNFT deployer) s)"


section \<open>Properties and scenarios\<close>

text \<open>
  The owner\<rightarrow>tokens index is the inverse of the token\<rightarrow>owner ledger: for every
  account, the index lists exactly the tokens the ledger gives to that account, each once.
\<close>

definition index_inverse :: "NodeRightsNFT \<Rightarrow> bool" where
  "index_inverse s =
     (\<forall>a. a \<noteq> 0 \<longrightarrow>
        distinct (ownerNodes s a) \<and> set (ownerNodes s a) = {t. ownerOf s t = a})"

text \<open>No approval is held in the name of the zero address or for a token nobody owns.\<close>

definition approvals_wf :: "NodeRightsNFT \<Rightarrow> bool" where
  "approvals_wf s =
     ((\<forall>a. \<not> operatorApprovals s 0 a) \<and> (\<forall>t. owners s t = 0 \<longrightarrow> tokenApprovals s t = 0))"

text \<open>A minted node that is terminated and has no token stake left.\<close>

definition inert :: "nat \<Rightarrow> NodeRightsNFT \<Rightarrow> bool" where
  "inert tokenId s =
     (ownerOf s tokenId \<noteq> 0 \<and> status (nodeRights s tokenId) = TERMINATED \<and>
      stakedDPN (nodeRights s tokenId) = 0)"

text \<open>
  The reward estimate in the words of the spec, over the reals: the base rate times the
  seconds since the last claim, scaled by \<open>performanceScore / 10000\<close> and by the staking
  multiplier \<open>1 + max(0, stakedNative - minNativeStake) / minNativeStake\<close>; zero for a
  node that is not ACTIVE.
\<close>

definition spec_estimate :: "NodeRights \<Rightarrow> NodeTypeConfig \<Rightarrow> nat \<Rightarrow> real" where
  "spec_estimate node config secondsSinceLastClaim =
     (if status node = ACTIVE then
        real (baseRewardRate config) * real secondsSinceLastClaim
        * (real (performanceScore node) / 10000)
        * (1 + max 0 (real (stakedETH node) - real (minETHStake config))
                 / real (minETHStake config))
      else 0)"

text \<open>
  The scenario of the spec and of the tests: account 9 deploys the contract, account 3
  mints a STORAGE node with 1.5 ether and 1000 tokens at time 1000. From there the
  administrator reports a score of 7000, of 1000 or of 50000, or the owner hands the
  token to account 2.
\<close>

definition scenario_deployed :: NodeRightsNFT where
  "scenario_deployed = deploy_NodeRightsNFT 9"

definition scenario_minted :: NodeRightsNFT where
  "scenario_minted =
     fst (commit scenario_deployed
            (mintNodeRights \<lparr>msg_sender = 3, block_timestamp = 1000\<rparr> (3 * ether div 2)
               STORAGE (1000 * ether) ''metadata'' scenario_deployed))"

definition scenario_slashed :: NodeRightsNFT where
  "scenario_slashed =
     fst (commit scenario_minted
            (updatePerformance \<lparr>msg_sender = 9, block_timestamp = 2000\<rparr> 0 1800 7000
               scenario_minted))"

definition scenario_terminated :: NodeRightsNFT where
  "scenario_terminated =
     fst (commit scenario_minted
            (updatePerformance \<lparr>msg_sender = 9, block_timestamp = 2000\<rparr> 0 60 1000
               scenario_minted))"

definition scenario_overscored :: NodeRightsNFT where
  "scenario_overscored =
     fst (commit scenario_minted
            (updatePerformance \<lparr>msg_sender = 9, block_timestamp = 2000\<rparr> 0 0 50000
               scenario_minted))"

definition scenario_transferred :: NodeRightsNFT where
  "scenario_transferred =
     fst (commit scenario_minted
            (transferFrom \<lparr>msg_sender = 3, block_timestamp = 2000\<rparr> 3 2 0 scenario_minted))"


section \<open>Basic facts\<close>

lemma and_then_Inr [simp]: "and_then (Inr x) k = k x"
  by (simp add: and_then_def)

lemma and_then_Inl [simp]: "and_then (Inl e) k = Inl e"
  by (simp add: and_then_def)

lemmas host_defs = checked_add_def checked_sub_def checked_mul_def checked_div_def

lemmas ledger_defs = ownerOf_def isAuthorized_def super_update_def update_def safeMint_def


lemma reachable_deploy: "d \<noteq> 0 \<Longrightarrow> reachable (deploy_NodeRightsNFT d)"
  unfolding reachable_def by (blast intro: reaches_refl)

lemma reachable_step:
  "reachable s \<Longrightarrow> msg_sender e \<noteq> 0 \<Longrightarrow> exec e c s = Inr (s', evs) \<Longrightarrow> reachable s'"
  unfolding reachable_def by (blast intro: reaches_step)

subsection \<open>The scenario, evaluated\<close>

lemma scenario_minted_result:
  "mintNodeRights \<lparr>msg_sender = 3, block_timestamp = 1000\<rparr> (3 * ether div 2)
     STORAGE (1000 * ether) ''metadata'' scenario_deployed =
   Inr (scenario_minted,
        [Transfer 0 3 0, NodeRightsMinted 0 3 STORAGE (3 * ether div 2) (1000 * ether)])"
  by (simp add: scenario_minted_def scenario_deployed_def commit_def mintNodeRights_def
      deploy_NodeRightsNFT_def setupNodeTypes_def ether_def Let_def host_defs ledger_defs
      PERFORMANCE_DECIMALS_def)

lemma scenario_minted_fields:
  "nodeRights scenario_minted 0 =
     \<lparr>nodeType = STORAGE, stakedETH = 1500000000000000000,
      stakedDPN = 1000000000000000000000, mintedAt = 1000, lastRewardClaim = 1000,
      status = ACTIVE, totalUptime = 0, performanceScore = 10000, metadata = ''metadata'',
      isUpgraded = False\<rparr>"
  "owners scenario_minted 0 = 3"
  "ownerNodes scenario_minted 3 = [0]"
  "ownerNodes scenario_minted 2 = []"
  "tokenApprovals scenario_minted 0 = 0"
  "operatorApprovals scenario_minted 3 3 = False"
  "contract_owner scenario_minted = 9"
  "participationContract scenario_minted = 0"
  "nodeTypeConfigs scenario_minted STORAGE =
     \<lparr>minETHStake = 1000000000000000000, minDPNStake = 1000000000000000000000,
      baseRewardRate = 11574074074074, maxCapacity = 1000, isActive = True\<rparr>"
  by (simp_all add: scenario_minted_def scenario_deployed_def commit_def mintNodeRights_def
      deploy_NodeRightsNFT_def setupNodeTypes_def ether_def Let_def host_defs ledger_defs
      PERFORMANCE_DECIMALS_def)

lemma reachable_scenario_minted: "reachable scenario_minted"
proof -
  have "reachable scenario_deployed"
    by (simp add: scenario_deployed_def reachable_deploy)
  moreover have "msg_sender \<lparr>msg_sender = 3, block_timestamp = 1000\<rparr> \<noteq> 0"
    by simp
  moreover have "exec \<lparr>msg_sender = 3, block_timestamp = 1000\<rparr>
      (MintNodeRights (3 * ether div 2) STORAGE (1000 * ether) ''metadata'') scenario_deployed =
    Inr (scenario_minted,
         [Transfer 0 3 0, NodeRightsMinted 0 3 STORAGE (3 * ether div 2) (1000 * ether)])"
    using scenario_minted_result by simp
  ultimately show ?thesis by (rule reachable_step)
qed

lemma scenario_slashed_result:
  "updatePerformance \<lparr>msg_sender = 9, block_timestamp = 2000\<rparr> 0 1800 7000 scenario_minted =
   Inr (scenario_slashed,
        [NodeSlashed 0 SLASHED_MINOR 50000000000000000000 ''Low performance (50-90%)'',
         PerformanceUpdated 0 7000 1800 SLASHED_MINOR])"
  by (simp add: scenario_slashed_def commit_def updatePerformance_def applySlashing_def
      evaluateNodeStatus_def scenario_minted_fields ownerOf_def host_defs Let_def)

lemma scenario_terminated_result:
  "updatePerformance \<lparr>msg_sender = 9, block_timestamp = 2000\<rparr> 0 60 1000 scenario_minted =
   Inr (scenario_terminated,
        [NodeSlashed 0 TERMINATED 1000000000000000000000 ''Critical failure (<20%)'',
         PerformanceUpdated 0 1000 60 TERMINATED])"
  by (simp add: scenario_terminated_def commit_def updatePerformance_def applySlashing_def
      evaluateNodeStatus_def scenario_minted_fields ownerOf_def host_defs Let_def)

lemma scenario_overscored_result:
  "updatePerformance \<lparr>msg_sender = 9, block_timestamp = 2000\<rparr> 0 0 50000 scenario_minted =
   Inr (scenario_overscored, [PerformanceUpdated 0 50000 0 ACTIVE])"
  by (simp add: scenario_overscored_def commit_def updatePerformance_def applySlashing_def
      evaluateNodeStatus_def scenario_minted_fields ownerOf_def host_defs Let_def)

lemma scenario_transferred_result:
  "transferFrom \<lparr>msg_sender = 3, block_timestamp = 2000\<rparr> 3 2 0 scenario_minted =
   Inr (scenario_transferred, [Transfer 3 2 0])"
  by (simp add: scenario_transferred_def commit_def transferFrom_def ledger_defs
      scenario_minted_fields Let_def)


lemma scenario_slashed_fields:
  "nodeRights scenario_slashed 0 =
     \<lparr>nodeType = STORAGE, stakedETH = 1500000000000000000,
      stakedDPN = 950000000000000000000, mintedAt = 1000, lastRewardClaim = 1000,
      status = SLASHED_MINOR, totalUptime = 1800, performanceScore = 7000,
      metadata = ''metadata'', isUpgraded = False\<rparr>"
  "owners scenario_slashed 0 = 3"
  by (simp_all add: scenario_slashed_def commit_def updatePerformance_def applySlashing_def
      evaluateNodeStatus_def scenario_minted_fields ownerOf_def host_defs Let_def)

lemma scenario_terminated_fields:
  "nodeRights scenario_terminated 0 =
     \<lparr>nodeType = STORAGE, stakedETH = 1500000000000000000,
      stakedDPN = 0, mintedAt = 1000, lastRewardClaim = 1000,
      status = TERMINATED, totalUptime = 60, performanceScore = 1000,
      metadata = ''metadata'', isUpgraded = False\<rparr>"
  "owners scenario_terminated 0 = 3"
  "contract_owner scenario_terminated = 9"
  "participationContract scenario_terminated = 0"
  by (simp_all add: scenario_terminated_def commit_def updatePerformance_def
      applySlashing_def evaluateNodeStatus_def scenario_minted_fields ownerOf_def host_defs
      Let_def)

lemma scenario_overscored_fields:
  "nodeRights scenario_overscored 0 =
     \<lparr>nodeType = STORAGE, stakedETH = 1500000000000000000,
      stakedDPN = 1000000000000000000000, mintedAt = 1000, lastRewardClaim = 1000,
      status = ACTIVE, totalUptime = 0, performanceScore = 50000,
      metadata = ''metadata'', isUpgraded = False\<rparr>"
  "owners scenario_overscored 0 = 3"
  by (simp_all add: scenario_overscored_def commit_def updatePerformance_def
      applySlashing_def evaluateNodeStatus_def scenario_minted_fields ownerOf_def host_defs
      Let_def)

lemma removeFromNodes_single: "removeFromNodes 0 t [t] = []"
  by (simp add: removeFromNodes.simps [of 0 t "[t]"])

lemma scenario_transferred_fields:
  "owners scenario_transferred 0 = 2"
  "ownerNodes scenario_transferred 3 = []"
  "ownerNodes scenario_transferred 2 = [0]"
  by (simp_all add: scenario_transferred_def commit_def transferFrom_def ledger_defs
      scenario_minted_fields Let_def removeFromNodes_single)


section \<open>The status table\<close>

text \<open>
  Claim C5. The status evaluated on a performance update depends on the reported score
  alone, with inclusive lower bounds: 9000 and more is ACTIVE, 5000 to 8999 is
  SLASHED_MINOR, 2000 to 4999 is SLASHED_MAJOR, less than 2000 is TERMINATED; the scores
  9000, 5000 and 2000 themselves fall in the better tier. Whatever the node's status was
  before, an update that returns leaves the node with the status of the table and reports
  it in its PerformanceUpdated event.
\<close>

theorem status_table:
  "(9000 \<le> score \<longrightarrow> evaluateNodeStatus score = ACTIVE) \<and>
   (5000 \<le> score \<and> score \<le> 8999 \<longrightarrow> evaluateNodeStatus score = SLASHED_MINOR) \<and>
   (2000 \<le> score \<and> score \<le> 4999 \<longrightarrow> evaluateNodeStatus score = SLASHED_MAJOR) \<and>
   (score < 2000 \<longrightarrow> evaluateNodeStatus score = TERMINATED) \<and>
   evaluateNodeStatus 9000 = ACTIVE \<and>
   evaluateNodeStatus 5000 = SLASHED_MINOR \<and>
   evaluateNodeStatus 2000 = SLASHED_MAJOR \<and>
   (\<forall>e tokenId u s s' evs.
      updatePerformance e tokenId u score s = Inr (s', evs) \<longrightarrow>
        status (nodeRights s' tokenId) = evaluateNodeStatus score \<and>
        last evs = PerformanceUpdated tokenId score u (evaluateNodeStatus score))"
proof -
  have table:
    "(9000 \<le> score \<longrightarrow> evaluateNodeStatus score = ACTIVE) \<and>
     (5000 \<le> score \<and> score \<le> 8999 \<longrightarrow> evaluateNodeStatus score = SLASHED_MINOR) \<and>
     (2000 \<le> score \<and> score \<le> 4999 \<longrightarrow> evaluateNodeStatus score = SLASHED_MAJOR) \<and>
     (score < 2000 \<longrightarrow> evaluateNodeStatus score = TERMINATED)"
    by (simp add: evaluateNodeStatus_def)
  have bounds:
    "evaluateNodeStatus 9000 = ACTIVE \<and> evaluateNodeStatus 5000 = SLASHED_MINOR \<and>
     evaluateNodeStatus 2000 = SLASHED_MAJOR"
    by (simp add: evaluateNodeStatus_def)
  have upd: "status (nodeRights s' tokenId) = evaluateNodeStatus score \<and>
      last evs = PerformanceUpdated tokenId score u (evaluateNodeStatus score)"
    if "updatePerformance e tokenId u score s = Inr (s', evs)" for e tokenId u s s' evs
    using that
    by (auto simp: updatePerformance_def applySlashing_def Let_def host_defs
          split: if_splits)
  from table bounds upd show ?thesis by blast
qed

theorem status_table_witness:
  "updatePerformance \<lparr>msg_sender = 9, block_timestamp = 2000\<rparr> 0 1800 7000 scenario_minted =
     Inr (scenario_slashed,
          [NodeSlashed 0 SLASHED_MINOR 50000000000000000000 ''Low performance (50-90%)'',
           PerformanceUpdated 0 7000 1800 SLASHED_MINOR]) \<and>
   status (nodeRights scenario_minted 0) = ACTIVE \<and>
   evaluateNodeStatus 7000 = SLASHED_MINOR \<and>
   status (nodeRights scenario_slashed 0) = SLASHED_MINOR"
  using status_table [of 7000] scenario_slashed_result
  by (simp add: scenario_minted_fields evaluateNodeStatus_def)


section \<open>The participation ledger\<close>

text \<open>
  Claim C9. claimReward is refused ("Not owner", the spec's Unauthorized) unless the
  caller is the node's registered owner. Called by the owner it reads the unclaimed
  amount, reports that amount in its RewardClaimed event and sets the amount to zero; a
  second claim by the owner right after it reports zero and changes nothing.
\<close>

theorem claimReward_owner_only_idempotent:
  "(owner (nodes s nodeId) \<noteq> msg_sender e \<longrightarrow>
      claimReward e nodeId s = Inl (Revert ''Not owner'')) \<and>
   (owner (nodes s nodeId) = msg_sender e \<longrightarrow>
      (\<exists>s1. claimReward e nodeId s =
              Inr (s1, [RewardClaimed nodeId (msg_sender e) (earned (stats s nodeId))
                          (block_timestamp e)]) \<and>
            s1 = s\<lparr>stats := (stats s)(nodeId := (stats s nodeId)\<lparr>earned := 0\<rparr>)\<rparr> \<and>
            earned (stats s1 nodeId) = 0 \<and>
            (\<forall>e'. msg_sender e' = msg_sender e \<longrightarrow>
               claimReward e' nodeId s1 =
                 Inr (s1, [RewardClaimed nodeId (msg_sender e) 0 (block_timestamp e')]))))"
  by (simp add: claimReward_def Let_def)

theorem claimReward_owner_only_idempotent_witness:
  "\<exists>s0 s1 s2.
     registerNode \<lparr>msg_sender = 5, block_timestamp = 10\<rparr> ''Node A'' deploy_Participation
       = Inr (s0, [NodeRegistered 0 5 10]) \<and>
     recordUptime \<lparr>msg_sender = 5, block_timestamp = 20\<rparr> 0 15 s0
       = Inr (s1, [UptimeRecorded 0 15 20]) \<and>
     claimReward \<lparr>msg_sender = 6, block_timestamp = 30\<rparr> 0 s1 = Inl (Revert ''Not owner'') \<and>
     claimReward \<lparr>msg_sender = 5, block_timestamp = 30\<rparr> 0 s1
       = Inr (s2, [RewardClaimed 0 5 15 30]) \<and>
     claimReward \<lparr>msg_sender = 5, block_timestamp = 31\<rparr> 0 s2
       = Inr (s2, [RewardClaimed 0 5 0 31])"
  using
    claimReward_owner_only_idempotent
      [of "(case recordUptime \<lparr>msg_sender = 5, block_timestamp = 20\<rparr> 0 15
              (case registerNode \<lparr>msg_sender = 5, block_timestamp = 10\<rparr> ''Node A''
                      deploy_Participation of Inr (s, evs) \<Rightarrow> s) of Inr (s, evs) \<Rightarrow> s)"
          0 "\<lparr>msg_sender = 5, block_timestamp = 30\<rparr>"]
    claimReward_owner_only_idempotent
      [of "(case recordUptime \<lparr>msg_sender = 5, block_timestamp = 20\<rparr> 0 15
              (case registerNode \<lparr>msg_sender = 5, block_timestamp = 10\<rparr> ''Node A''
                      deploy_Participation of Inr (s, evs) \<Rightarrow> s) of Inr (s, evs) \<Rightarrow> s)"
          0 "\<lparr>msg_sender = 6, block_timestamp = 30\<rparr>"]
  by (simp add: registerNode_def recordUptime_def deploy_Participation_def Let_def host_defs)

text \<open>
  Claim C10. recordUptime never looks the node up: for every node id, assigned by
  registerNode or not, and every caller it returns, adding the minutes to the id's
  uptime and unclaimed amount (as long as the sums fit a uint256); on an id that has no
  stats yet it starts from zero, and the registry's counter stays where it was.
  stakeToNode with a positive value likewise returns for every id and every caller and
  adds the value to the stake kept for that id.
\<close>

theorem uptime_and_stake_accept_any_node:
  "(uptime (stats s nodeId) + minutesUp < 2 ^ 256 \<and>
    earned (stats s nodeId) + minutesUp < 2 ^ 256 \<longrightarrow>
      recordUptime e nodeId minutesUp s =
        Inr (s\<lparr>stats := (stats s)(nodeId :=
                  (stats s nodeId)\<lparr>uptime := uptime (stats s nodeId) + minutesUp,
                   lastUpdate := block_timestamp e,
                   earned := earned (stats s nodeId) + minutesUp\<rparr>)\<rparr>,
             [UptimeRecorded nodeId minutesUp (block_timestamp e)])) \<and>
   (minutesUp < 2 ^ 256 \<longrightarrow>
      (\<exists>s'. recordUptime e nodeId minutesUp deploy_Participation =
               Inr (s', [UptimeRecorded nodeId minutesUp (block_timestamp e)]) \<and>
             stats s' nodeId =
               \<lparr>uptime = minutesUp, lastUpdate = block_timestamp e, earned = minutesUp\<rparr> \<and>
             nextId s' = 0)) \<and>
   (0 < v \<and> nodeStakes s nodeId + v < 2 ^ 256 \<longrightarrow>
      stakeToNode e v nodeId s =
        Inr (s\<lparr>nodeStakes := (nodeStakes s)(nodeId := nodeStakes s nodeId + v)\<rparr>,
             [StakeUpdated nodeId (msg_sender e) v (block_timestamp e)]))"
  by (simp add: recordUptime_def stakeToNode_def Let_def host_defs deploy_Participation_def)

theorem uptime_and_stake_accept_any_node_witness:
  "nextId deploy_Participation = 0 \<and>
   (\<exists>s'. recordUptime \<lparr>msg_sender = 6, block_timestamp = 20\<rparr> 7 15 deploy_Participation =
            Inr (s', [UptimeRecorded 7 15 20]) \<and>
          earned (stats s' 7) = 15 \<and> uptime (stats s' 7) = 15) \<and>
   (\<exists>s'. stakeToNode \<lparr>msg_sender = 6, block_timestamp = 20\<rparr> 3 7 deploy_Participation =
            Inr (s', [StakeUpdated 7 6 3 20]) \<and>
          nodeStakes s' 7 = 3)"
  using uptime_and_stake_accept_any_node
    [of deploy_Participation 7 15 "\<lparr>msg_sender = 6, block_timestamp = 20\<rparr>" 3]
  by (simp add: deploy_Participation_def)

section \<open>Slashing\<close>

text \<open>
  Claim C3. When updatePerformance evaluates a status that differs from the stored one it
  sets that status and takes the penalty of the tier from the token stake: the floor of
  5% of the stake as it was before the penalty for SLASHED_MINOR, the floor of 15% for
  SLASHED_MAJOR, all of it for TERMINATED; the native stake stays as it is in every tier.
  The call returns whenever the token is minted, the caller is authorized, the node is
  not yet terminated and the checked arithmetic fits a uint256.
\<close>

theorem slashing_policy:
  "(ownerOf s tokenId \<noteq> 0 \<and>
    (msg_sender e = contract_owner s \<or> msg_sender e = participationContract s) \<and>
    status (nodeRights s tokenId) \<noteq> TERMINATED \<and>
    totalUptime (nodeRights s tokenId) + u < 2 ^ 256 \<and>
    (evaluateNodeStatus score = SLASHED_MINOR \<and>
     status (nodeRights s tokenId) \<noteq> SLASHED_MINOR \<longrightarrow>
       stakedDPN (nodeRights s tokenId) * 5 < 2 ^ 256) \<and>
    (evaluateNodeStatus score = SLASHED_MAJOR \<and>
     status (nodeRights s tokenId) \<noteq> SLASHED_MAJOR \<longrightarrow>
       stakedDPN (nodeRights s tokenId) * 15 < 2 ^ 256)
    \<longrightarrow> (\<exists>s' evs. updatePerformance e tokenId u score s = Inr (s', evs))) \<and>
   (\<forall>s' evs.
      updatePerformance e tokenId u score s = Inr (s', evs) \<and>
      evaluateNodeStatus score \<noteq> status (nodeRights s tokenId) \<longrightarrow>
        status (nodeRights s' tokenId) = evaluateNodeStatus score \<and>
        stakedETH (nodeRights s' tokenId) = stakedETH (nodeRights s tokenId) \<and>
        (evaluateNodeStatus score = SLASHED_MINOR \<longrightarrow>
           stakedDPN (nodeRights s' tokenId) =
             stakedDPN (nodeRights s tokenId) - stakedDPN (nodeRights s tokenId) * 5 div 100 \<and>
           evs = [NodeSlashed tokenId SLASHED_MINOR
                    (stakedDPN (nodeRights s tokenId) * 5 div 100)
                    ''Low performance (50-90%)'',
                  PerformanceUpdated tokenId score u SLASHED_MINOR]) \<and>
        (evaluateNodeStatus score = SLASHED_MAJOR \<longrightarrow>
           stakedDPN (nodeRights s' tokenId) =
             stakedDPN (nodeRights s tokenId) - stakedDPN (nodeRights s tokenId) * 15 div 100 \<and>
           evs = [NodeSlashed tokenId SLASHED_MAJOR
                    (stakedDPN (nodeRights s tokenId) * 15 div 100)
                    ''Poor performance (20-50%)'',
                  PerformanceUpdated tokenId score u SLASHED_MAJOR]) \<and>
        (evaluateNodeStatus score = TERMINATED \<longrightarrow>
           stakedDPN (nodeRights s' tokenId) = 0 \<and>
           evs = [NodeSlashed tokenId TERMINATED (stakedDPN (nodeRights s tokenId))
                    ''Critical failure (<20%)'',
                  PerformanceUpdated tokenId score u TERMINATED]) \<and>
        (evaluateNodeStatus score = ACTIVE \<longrightarrow>
           stakedDPN (nodeRights s' tokenId) = stakedDPN (nodeRights s tokenId)))"
proof -
  let ?n = "nodeRights s tokenId"
  have returns: "\<exists>s' evs. updatePerformance e tokenId u score s = Inr (s', evs)"
    if "ownerOf s tokenId \<noteq> 0"
      "msg_sender e = contract_owner s \<or> msg_sender e = participationContract s"
      "status ?n \<noteq> TERMINATED" "totalUptime ?n + u < 2 ^ 256"
      "evaluateNodeStatus score = SLASHED_MINOR \<and> status ?n \<noteq> SLASHED_MINOR
         \<longrightarrow> stakedDPN ?n * 5 < 2 ^ 256"
      "evaluateNodeStatus score = SLASHED_MAJOR \<and> status ?n \<noteq> SLASHED_MAJOR
         \<longrightarrow> stakedDPN ?n * 15 < 2 ^ 256"
    using that
    by (cases "evaluateNodeStatus score")
       (auto simp: updatePerformance_def applySlashing_def Let_def host_defs)
  have effect: "status (nodeRights s' tokenId) = evaluateNodeStatus score \<and>
        stakedETH (nodeRights s' tokenId) = stakedETH ?n \<and>
        (evaluateNodeStatus score = SLASHED_MINOR \<longrightarrow>
           stakedDPN (nodeRights s' tokenId) = stakedDPN ?n - stakedDPN ?n * 5 div 100 \<and>
           evs = [NodeSlashed tokenId SLASHED_MINOR (stakedDPN ?n * 5 div 100)
                    ''Low performance (50-90%)'',
                  PerformanceUpdated tokenId score u SLASHED_MINOR]) \<and>
        (evaluateNodeStatus score = SLASHED_MAJOR \<longrightarrow>
           stakedDPN (nodeRights s' tokenId) = stakedDPN ?n - stakedDPN ?n * 15 div 100 \<and>
           evs = [NodeSlashed tokenId SLASHED_MAJOR (stakedDPN ?n * 15 div 100)
                    ''Poor performance (20-50%)'',
                  PerformanceUpdated tokenId score u SLASHED_MAJOR]) \<and>
        (evaluateNodeStatus score = TERMINATED \<longrightarrow>
           stakedDPN (nodeRights s' tokenId) = 0 \<and>
           evs = [NodeSlashed tokenId TERMINATED (stakedDPN ?n)
                    ''Critical failure (<20%)'',
                  PerformanceUpdated tokenId score u TERMINATED]) \<and>
        (evaluateNodeStatus score = ACTIVE \<longrightarrow>
           stakedDPN (nodeRights s' tokenId) = stakedDPN ?n)"
    if "updatePerformance e tokenId u score s = Inr (s', evs)"
      "evaluateNodeStatus score \<noteq> status ?n" for s' evs
    using that
    by (cases "evaluateNodeStatus score")
       (auto simp: updatePerformance_def applySlashing_def Let_def host_defs split: if_splits)
  from returns effect show ?thesis by blast
qed

theorem slashing_policy_witness:
  "updatePerformance \<lparr>msg_sender = 9, block_timestamp = 2000\<rparr> 0 1800 7000 scenario_minted =
     Inr (scenario_slashed,
          [NodeSlashed 0 SLASHED_MINOR 50000000000000000000 ''Low performance (50-90%)'',
           PerformanceUpdated 0 7000 1800 SLASHED_MINOR]) \<and>
   status (nodeRights scenario_minted 0) = ACTIVE \<and>
   status (nodeRights scenario_slashed 0) = SLASHED_MINOR \<and>
   stakedETH (nodeRights scenario_slashed 0) = 1500000000000000000 \<and>
   stakedDPN (nodeRights scenario_minted 0) = 1000000000000000000000 \<and>
   stakedDPN (nodeRights scenario_slashed 0) = 950000000000000000000"
  using slashing_policy [of scenario_minted 0 "\<lparr>msg_sender = 9, block_timestamp = 2000\<rparr>"
      1800 7000] scenario_slashed_result
  by (simp add: scenario_minted_fields evaluateNodeStatus_def ownerOf_def)


section \<open>Upgrading a node\<close>

text \<open>
  Claim C6. upgradeNode is refused with "Node does not exist" (NotFound) on an unminted
  token id, with "Not node owner" (NotOwner) when the token is minted and the caller
  does not own it, and with "Node not active" (NodeNotActive) when the owner calls it on
  a node whose status is not ACTIVE. When it returns, the attached value and
  additionalDPN have been added to the node's stakes, isUpgraded is true, the score is
  \<open>min (oldScore + (value * 100) div newStakedETH) 12000\<close> with truncating division, and
  nothing else has changed; it returns whenever the three checks pass and the checked
  arithmetic goes through (in particular the new native stake is not zero).
\<close>

theorem upgradeNode_checks_and_effect:
  "(ownerOf s tokenId = 0 \<longrightarrow>
      upgradeNode e v tokenId d s = Inl (Revert ''Node does not exist'')) \<and>
   (ownerOf s tokenId \<noteq> 0 \<and> ownerOf s tokenId \<noteq> msg_sender e \<longrightarrow>
      upgradeNode e v tokenId d s = Inl (Revert ''Not node owner'')) \<and>
   (ownerOf s tokenId \<noteq> 0 \<and> ownerOf s tokenId = msg_sender e \<and>
    status (nodeRights s tokenId) \<noteq> ACTIVE \<longrightarrow>
      upgradeNode e v tokenId d s = Inl (Revert ''Node not active'')) \<and>
   (\<forall>s' evs. upgradeNode e v tokenId d s = Inr (s', evs) \<longrightarrow>
      s' = s\<lparr>nodeRights := (nodeRights s)(tokenId := (nodeRights s tokenId)
               \<lparr>stakedETH := stakedETH (nodeRights s tokenId) + v,
                stakedDPN := stakedDPN (nodeRights s tokenId) + d,
                isUpgraded := True,
                performanceScore :=
                  min (performanceScore (nodeRights s tokenId)
                         + (v * 100) div (stakedETH (nodeRights s tokenId) + v))
                      12000\<rparr>)\<rparr> \<and>
      evs = [NodeUpgraded tokenId v d
               (min (performanceScore (nodeRights s tokenId)
                       + (v * 100) div (stakedETH (nodeRights s tokenId) + v))
                    12000)]) \<and>
   (ownerOf s tokenId \<noteq> 0 \<and> ownerOf s tokenId = msg_sender e \<and>
    status (nodeRights s tokenId) = ACTIVE \<and>
    0 < stakedETH (nodeRights s tokenId) + v \<and>
    stakedETH (nodeRights s tokenId) + v < 2 ^ 256 \<and>
    stakedDPN (nodeRights s tokenId) + d < 2 ^ 256 \<and>
    v * 100 < 2 ^ 256 \<and>
    performanceScore (nodeRights s tokenId)
      + (v * 100) div (stakedETH (nodeRights s tokenId) + v) < 2 ^ 256 \<longrightarrow>
      (\<exists>s' evs. upgradeNode e v tokenId d s = Inr (s', evs)))"
proof -
  have effect: "s' = s\<lparr>nodeRights := (nodeRights s)(tokenId := (nodeRights s tokenId)
               \<lparr>stakedETH := stakedETH (nodeRights s tokenId) + v,
                stakedDPN := stakedDPN (nodeRights s tokenId) + d,
                isUpgraded := True,
                performanceScore :=
                  min (performanceScore (nodeRights s tokenId)
                         + (v * 100) div (stakedETH (nodeRights s tokenId) + v))
                      12000\<rparr>)\<rparr> \<and>
      evs = [NodeUpgraded tokenId v d
               (min (performanceScore (nodeRights s tokenId)
                       + (v * 100) div (stakedETH (nodeRights s tokenId) + v))
                    12000)]"
    if "upgradeNode e v tokenId d s = Inr (s', evs)" for s' evs
    using that
    by (auto simp: upgradeNode_def Let_def host_defs min_uint_def min_def
          PERFORMANCE_DECIMALS_def split: if_splits)
  have rest: "(ownerOf s tokenId = 0 \<longrightarrow>
      upgradeNode e v tokenId d s = Inl (Revert ''Node does not exist'')) \<and>
   (ownerOf s tokenId \<noteq> 0 \<and> ownerOf s tokenId \<noteq> msg_sender e \<longrightarrow>
      upgradeNode e v tokenId d s = Inl (Revert ''Not node owner'')) \<and>
   (ownerOf s tokenId \<noteq> 0 \<and> ownerOf s tokenId = msg_sender e \<and>
    status (nodeRights s tokenId) \<noteq> ACTIVE \<longrightarrow>
      upgradeNode e v tokenId d s = Inl (Revert ''Node not active'')) \<and>
   (ownerOf s tokenId \<noteq> 0 \<and> ownerOf s tokenId = msg_sender e \<and>
    status (nodeRights s tokenId) = ACTIVE \<and>
    0 < stakedETH (nodeRights s tokenId) + v \<and>
    stakedETH (nodeRights s tokenId) + v < 2 ^ 256 \<and>
    stakedDPN (nodeRights s tokenId) + d < 2 ^ 256 \<and>
    v * 100 < 2 ^ 256 \<and>
    performanceScore (nodeRights s tokenId)
      + (v * 100) div (stakedETH (nodeRights s tokenId) + v) < 2 ^ 256 \<longrightarrow>
      (\<exists>s' evs. upgradeNode e v tokenId d s = Inr (s', evs)))"
    by (simp add: upgradeNode_def Let_def host_defs)
  from effect rest show ?thesis by blast
qed

theorem upgradeNode_checks_and_effect_witness:
  "upgradeNode \<lparr>msg_sender = 3, block_timestamp = 2000\<rparr> 500000000000000000 7
     (500 * ether) scenario_deployed = Inl (Revert ''Node does not exist'') \<and>
   upgradeNode \<lparr>msg_sender = 2, block_timestamp = 2000\<rparr> 500000000000000000 0
     (500 * ether) scenario_minted = Inl (Revert ''Not node owner'') \<and>
   upgradeNode \<lparr>msg_sender = 3, block_timestamp = 3000\<rparr> 500000000000000000 0
     (500 * ether) scenario_slashed = Inl (Revert ''Node not active'') \<and>
   upgradeNode \<lparr>msg_sender = 3, block_timestamp = 2000\<rparr> 500000000000000000 0
     (500 * ether) scenario_minted =
     Inr (scenario_minted\<lparr>nodeRights := (nodeRights scenario_minted)(0 :=
            (nodeRights scenario_minted 0)\<lparr>stakedETH := 2000000000000000000,
               stakedDPN := 1500000000000000000000, isUpgraded := True,
               performanceScore := 10025\<rparr>)\<rparr>,
          [NodeUpgraded 0 500000000000000000 (500 * ether) 10025])"
proof -
  have unminted: "ownerOf scenario_deployed 7 = 0"
    by (simp add: scenario_deployed_def deploy_NodeRightsNFT_def ownerOf_def)
  show ?thesis
    using
      upgradeNode_checks_and_effect [of scenario_deployed 7
        "\<lparr>msg_sender = 3, block_timestamp = 2000\<rparr>" 500000000000000000 "500 * ether"]
      upgradeNode_checks_and_effect [of scenario_minted 0
        "\<lparr>msg_sender = 2, block_timestamp = 2000\<rparr>" 500000000000000000 "500 * ether"]
      upgradeNode_checks_and_effect [of scenario_slashed 0
        "\<lparr>msg_sender = 3, block_timestamp = 3000\<rparr>" 500000000000000000 "500 * ether"]
      upgradeNode_checks_and_effect [of scenario_minted 0
        "\<lparr>msg_sender = 3, block_timestamp = 2000\<rparr>" 500000000000000000 "500 * ether"]
      unminted
    by (auto simp: scenario_minted_fields scenario_slashed_fields ownerOf_def ether_def)
qed


section \<open>Reward estimation\<close>

text \<open>
  Claim C1, as amended. For a node that is not ACTIVE the estimate is zero. For an ACTIVE
  node whose native stake is at least the (non-zero) minimum of its type, the estimate is
  the base rate times the seconds since the last claim, scaled by
  \<open>performanceScore / 10000\<close> and then by a staking multiplier of
  \<open>(10000 + (stakedETH - minETHStake) * 1000 div minETHStake) / 10000\<close>, each division
  truncating: one tenth of the relative excess stake is added to the multiplier, and at
  the minimum stake the multiplier is exactly 1. getNodeDetails returns this estimate for
  a minted token.
\<close>

theorem pending_rewards_formula:
  assumes "node = nodeRights s tokenId"
    and "config = nodeTypeConfigs s (nodeType node)"
    and "elapsed = block_timestamp e - lastRewardClaim node"
    and "excess = stakedETH node - minETHStake config"
  shows
  "(status node \<noteq> ACTIVE \<longrightarrow> calculatePendingRewards e tokenId s = Inr 0) \<and>
   (status node = ACTIVE \<and>
    lastRewardClaim node \<le> block_timestamp e \<and>
    0 < minETHStake config \<and> minETHStake config \<le> stakedETH node \<and>
    baseRewardRate config * elapsed < 2 ^ 256 \<and>
    baseRewardRate config * elapsed * performanceScore node < 2 ^ 256 \<and>
    excess * 1000 < 2 ^ 256 \<and>
    10000 + excess * 1000 div minETHStake config < 2 ^ 256 \<and>
    (baseRewardRate config * elapsed * performanceScore node div 10000)
      * (10000 + excess * 1000 div minETHStake config) < 2 ^ 256 \<longrightarrow>
    calculatePendingRewards e tokenId s =
      Inr ((baseRewardRate config * elapsed * performanceScore node div 10000)
           * (10000 + excess * 1000 div minETHStake config) div 10000)) \<and>
   (status node = ACTIVE \<and> stakedETH node = minETHStake config \<and>
    lastRewardClaim node \<le> block_timestamp e \<and> 0 < minETHStake config \<and>
    baseRewardRate config * elapsed < 2 ^ 256 \<and>
    baseRewardRate config * elapsed * performanceScore node < 2 ^ 256 \<longrightarrow>
    calculatePendingRewards e tokenId s =
      Inr (baseRewardRate config * elapsed * performanceScore node div 10000)) \<and>
   (ownerOf s tokenId \<noteq> 0 \<and> mintedAt node \<le> block_timestamp e \<longrightarrow>
      getNodeDetails e tokenId s =
        and_then (calculatePendingRewards e tokenId s) (\<lambda>estimatedRewards.
          Inr (node, config, block_timestamp e - mintedAt node, estimatedRewards)))"
proof (intro conjI impI)
  assume "status node \<noteq> ACTIVE"
  then show "calculatePendingRewards e tokenId s = Inr 0"
    using assms by (simp add: calculatePendingRewards_def Let_def)
next
  assume "status node = ACTIVE \<and>
    lastRewardClaim node \<le> block_timestamp e \<and>
    0 < minETHStake config \<and> minETHStake config \<le> stakedETH node \<and>
    baseRewardRate config * elapsed < 2 ^ 256 \<and>
    baseRewardRate config * elapsed * performanceScore node < 2 ^ 256 \<and>
    excess * 1000 < 2 ^ 256 \<and>
    10000 + excess * 1000 div minETHStake config < 2 ^ 256 \<and>
    (baseRewardRate config * elapsed * performanceScore node div 10000)
      * (10000 + excess * 1000 div minETHStake config) < 2 ^ 256"
  then show "calculatePendingRewards e tokenId s =
      Inr ((baseRewardRate config * elapsed * performanceScore node div 10000)
           * (10000 + excess * 1000 div minETHStake config) div 10000)"
    using assms
    by (simp add: calculatePendingRewards_def Let_def host_defs PERFORMANCE_DECIMALS_def)
next
  assume a: "status node = ACTIVE \<and> stakedETH node = minETHStake config \<and>
    lastRewardClaim node \<le> block_timestamp e \<and> 0 < minETHStake config \<and>
    baseRewardRate config * elapsed < 2 ^ 256 \<and>
    baseRewardRate config * elapsed * performanceScore node < 2 ^ 256"
  have "baseRewardRate config * elapsed * performanceScore node div 10000 * 10000
          \<le> baseRewardRate config * elapsed * performanceScore node"
    by simp
  with a have "baseRewardRate config * elapsed * performanceScore node div 10000 * 10000 < 2 ^ 256"
    by linarith
  with a show "calculatePendingRewards e tokenId s =
      Inr (baseRewardRate config * elapsed * performanceScore node div 10000)"
    using assms
    by (simp add: calculatePendingRewards_def Let_def host_defs PERFORMANCE_DECIMALS_def)
next
  assume "ownerOf s tokenId \<noteq> 0 \<and> mintedAt node \<le> block_timestamp e"
  then show "getNodeDetails e tokenId s =
        and_then (calculatePendingRewards e tokenId s) (\<lambda>estimatedRewards.
          Inr (node, config, block_timestamp e - mintedAt node, estimatedRewards))"
    using assms by (simp add: getNodeDetails_def Let_def host_defs)
qed

theorem pending_rewards_formula_witness:
  "calculatePendingRewards \<lparr>msg_sender = 3, block_timestamp = 87400\<rparr> 0 scenario_minted =
     Inr 1049999999999993280 \<and>
   calculatePendingRewards \<lparr>msg_sender = 3, block_timestamp = 87400\<rparr> 0 scenario_slashed =
     Inr 0 \<and>
   getNodeDetails \<lparr>msg_sender = 3, block_timestamp = 87400\<rparr> 0 scenario_minted =
     Inr (nodeRights scenario_minted 0, nodeTypeConfigs scenario_minted STORAGE, 86400,
          1049999999999993280)"
  using
    pending_rewards_formula [of "nodeRights scenario_minted 0" scenario_minted 0
      "nodeTypeConfigs scenario_minted STORAGE" 86400
      "\<lparr>msg_sender = 3, block_timestamp = 87400\<rparr>" 500000000000000000]
    pending_rewards_formula [of "nodeRights scenario_slashed 0" scenario_slashed 0
      "nodeTypeConfigs scenario_slashed (nodeType (nodeRights scenario_slashed 0))"
      "87400 - lastRewardClaim (nodeRights scenario_slashed 0)"
      "\<lparr>msg_sender = 3, block_timestamp = 87400\<rparr>"
      "stakedETH (nodeRights scenario_slashed 0)
         - minETHStake (nodeTypeConfigs scenario_slashed
             (nodeType (nodeRights scenario_slashed 0)))"]
  by (simp add: scenario_minted_fields scenario_slashed_fields(1) ownerOf_def)

text \<open>
  Claim C1 as the spec words it does not hold. The scenario node is ACTIVE with a score
  of 10000 and a stake of 1.5 times the minimum; one day after minting the spec's
  multiplier \<open>1 + (stakedETH - minETHStake) / minETHStake = 1.5\<close> gives
  1499999999999990400, while getNodeDetails estimates 1049999999999993280, a multiplier
  of 1.05.
\<close>

theorem estimate_counterexample:
  "status (nodeRights scenario_minted 0) = ACTIVE \<and>
   ownerOf scenario_minted 0 = 3 \<and>
   getNodeDetails \<lparr>msg_sender = 3, block_timestamp = 87400\<rparr> 0 scenario_minted =
     Inr (nodeRights scenario_minted 0, nodeTypeConfigs scenario_minted STORAGE, 86400,
          1049999999999993280) \<and>
   spec_estimate (nodeRights scenario_minted 0) (nodeTypeConfigs scenario_minted STORAGE)
     (87400 - lastRewardClaim (nodeRights scenario_minted 0)) = 1499999999999990400 \<and>
   real 1049999999999993280 \<noteq>
     spec_estimate (nodeRights scenario_minted 0) (nodeTypeConfigs scenario_minted STORAGE)
       (87400 - lastRewardClaim (nodeRights scenario_minted 0))"
  by (simp add: getNodeDetails_def calculatePendingRewards_def scenario_minted_fields
      ownerOf_def host_defs Let_def PERFORMANCE_DECIMALS_def spec_estimate_def)


section \<open>The range of the score\<close>

text \<open>
  Claim C2 says that the score of a minted node never leaves the range from 0 to 12000.
  updatePerformance stores the reported score unchecked: after the administrator reports
  50000 for the scenario node, the state is reachable and the node's score is 50000.
\<close>

theorem score_above_ceiling:
  "reachable scenario_overscored \<and>
   ownerOf scenario_overscored 0 = 3 \<and>
   updatePerformance \<lparr>msg_sender = 9, block_timestamp = 2000\<rparr> 0 0 50000 scenario_minted =
     Inr (scenario_overscored, [PerformanceUpdated 0 50000 0 ACTIVE]) \<and>
   performanceScore (nodeRights scenario_overscored 0) = 50000 \<and>
   \<not> performanceScore (nodeRights scenario_overscored 0) \<le> 12000"
proof -
  let ?e = "\<lparr>msg_sender = 9, block_timestamp = 2000\<rparr>"
  have x: "exec ?e (UpdatePerformance 0 0 50000) scenario_minted =
      Inr (scenario_overscored, [PerformanceUpdated 0 50000 0 ACTIVE])"
    using scenario_overscored_result by simp
  have "reachable scenario_overscored"
    by (rule reachable_step [OF reachable_scenario_minted _ x]) simp
  then show ?thesis
    using scenario_overscored_result
    by (simp add: scenario_overscored_fields ownerOf_def)
qed


section \<open>Terminated nodes\<close>

lemma exec_inert:
  assumes "inert t s" and "exec e c s = Inr (s', evs)"
  shows "inert t s'"
proof (cases c)
  case (MintNodeRights v ty d md)
  with assms show ?thesis
    by (auto simp: inert_def mintNodeRights_def ledger_defs host_defs Let_def split: if_splits)
next
  case (TransferFrom src dst tokenId)
  with assms show ?thesis
    by (auto simp: inert_def transferFrom_def ledger_defs Let_def split: if_splits)
next
  case (UpgradeNode v tokenId d)
  with assms show ?thesis
    by (cases "tokenId = t")
       (auto simp: inert_def upgradeNode_def ownerOf_def host_defs Let_def and_then_def
          split: if_splits sum.splits)
next
  case (UpdatePerformance tokenId u p)
  with assms show ?thesis
    by (cases "tokenId = t")
       (auto simp: inert_def updatePerformance_def applySlashing_def ownerOf_def host_defs
          Let_def and_then_def split: if_splits sum.splits)
qed (insert assms, auto simp: inert_def bridgeToChain_def approve_def setApprovalForAll_def
       setParticipationContract_def setDPNTokenContract_def updateNodeTypeConfig_def
       transferOwnership_def renounceOwnership_def ownerOf_def Let_def split: if_splits)

lemma reaches_inert: "reaches s s' \<Longrightarrow> inert t s \<Longrightarrow> inert t s'"
  by (induction rule: reaches.induct) (auto intro: exec_inert)

lemma updatePerformance_to_terminated:
  assumes "updatePerformance e t u score s = Inr (s1, evs)"
    and "status (nodeRights s1 t) = TERMINATED"
  shows "inert t s1"
  using assms
  by (auto simp: inert_def updatePerformance_def applySlashing_def ownerOf_def host_defs
        Let_def split: if_splits)

text \<open>
  Claim C4, as amended. Once a call to updatePerformance has driven a node to TERMINATED,
  the node's token stake is zero and its status is TERMINATED in that state and in every
  state reached from it by any transactions, and every later updatePerformance call on the
  node is refused: with "Node terminated" (AlreadyTerminated) when the caller is the
  administrator or the participation contract, with "Unauthorized" for any other caller.
\<close>

theorem terminated_is_inert:
  assumes "updatePerformance e tokenId u score s = Inr (s1, evs)"
    and "status (nodeRights s1 tokenId) = TERMINATED"
    and "reaches s1 s2"
  shows "stakedDPN (nodeRights s2 tokenId) = 0 \<and>
         status (nodeRights s2 tokenId) = TERMINATED \<and>
         (\<forall>e' u' score'.
            updatePerformance e' tokenId u' score' s2 =
              (if msg_sender e' = contract_owner s2 \<or> msg_sender e' = participationContract s2
               then Inl (Revert ''Node terminated'') else Inl (Revert ''Unauthorized'')))"
proof -
  from updatePerformance_to_terminated [OF assms(1,2)] reaches_inert [OF assms(3)]
  have "inert tokenId s2" by blast
  then show ?thesis
    by (simp add: inert_def updatePerformance_def Let_def)
qed

theorem terminated_is_inert_witness:
  "updatePerformance \<lparr>msg_sender = 9, block_timestamp = 2000\<rparr> 0 60 1000 scenario_minted =
     Inr (scenario_terminated,
          [NodeSlashed 0 TERMINATED 1000000000000000000000 ''Critical failure (<20%)'',
           PerformanceUpdated 0 1000 60 TERMINATED]) \<and>
   status (nodeRights scenario_terminated 0) = TERMINATED \<and>
   reaches scenario_terminated
     (fst (commit scenario_terminated
        (bridgeToChain \<lparr>msg_sender = 3, block_timestamp = 3000\<rparr> 0 ''polygon''
           scenario_terminated))) \<and>
   stakedDPN (nodeRights (fst (commit scenario_terminated
        (bridgeToChain \<lparr>msg_sender = 3, block_timestamp = 3000\<rparr> 0 ''polygon''
           scenario_terminated))) 0) = 0 \<and>
   status (nodeRights (fst (commit scenario_terminated
        (bridgeToChain \<lparr>msg_sender = 3, block_timestamp = 3000\<rparr> 0 ''polygon''
           scenario_terminated))) 0) = TERMINATED \<and>
   updatePerformance \<lparr>msg_sender = 9, block_timestamp = 4000\<rparr> 0 60 9500
     (fst (commit scenario_terminated
        (bridgeToChain \<lparr>msg_sender = 3, block_timestamp = 3000\<rparr> 0 ''polygon''
           scenario_terminated))) = Inl (Revert ''Node terminated'')"
proof -
  let ?b = "bridgeToChain \<lparr>msg_sender = 3, block_timestamp = 3000\<rparr> 0 ''polygon''
              scenario_terminated"
  let ?s2 = "fst (commit scenario_terminated ?b)"
  have t: "status (nodeRights scenario_terminated 0) = TERMINATED"
    by (simp add: scenario_terminated_fields)
  have b: "exec \<lparr>msg_sender = 3, block_timestamp = 3000\<rparr> (BridgeToChain 0 ''polygon'')
      scenario_terminated = Inr (?s2, [CrossChainBridge 0 ''polygon'' 3])"
    by (simp add: bridgeToChain_def commit_def scenario_terminated_fields ownerOf_def)
  have r: "reaches scenario_terminated ?s2"
    by (rule reaches_step [OF reaches_refl _ b]) simp
  have c: "contract_owner ?s2 = 9"
    by (simp add: bridgeToChain_def commit_def scenario_terminated_fields ownerOf_def)
  from terminated_is_inert [OF scenario_terminated_result t r] t c scenario_terminated_result r
  show ?thesis by simp
qed

text \<open>
  Claim C4 as stated has every later call fail with AlreadyTerminated. The authorization
  check comes first: on the terminated scenario node a call by account 2, which is neither
  the administrator nor the participation contract, fails with "Unauthorized".
\<close>

theorem terminated_counterexample:
  "updatePerformance \<lparr>msg_sender = 9, block_timestamp = 2000\<rparr> 0 60 1000 scenario_minted =
     Inr (scenario_terminated,
          [NodeSlashed 0 TERMINATED 1000000000000000000000 ''Critical failure (<20%)'',
           PerformanceUpdated 0 1000 60 TERMINATED]) \<and>
   status (nodeRights scenario_terminated 0) = TERMINATED \<and>
   updatePerformance \<lparr>msg_sender = 2, block_timestamp = 3000\<rparr> 0 60 9500 scenario_terminated =
     Inl (Revert ''Unauthorized'') \<and>
   Revert ''Unauthorized'' \<noteq> Revert ''Node terminated''"
  using scenario_terminated_result
  by (simp add: updatePerformance_def scenario_terminated_fields ownerOf_def)


section \<open>Rejected calls\<close>

text \<open>
  Claim C7. A call of registerNode, recordUptime, claimReward, stakeToNode,
  mintNodeRights, upgradeNode, updatePerformance or bridgeToChain whose precondition is
  violated aborts, and the host then keeps the whole state as it was and logs no event:
  claimReward by someone who is not the owner, stakeToNode without value, mintNodeRights
  for an inactive type or below either minimum stake, upgradeNode on an unminted token,
  by a non-owner or on a node that is not ACTIVE, updatePerformance on an unminted
  token, by an unauthorized caller or on a terminated node, bridgeToChain on an unminted
  token or by a non-owner. registerNode and recordUptime have no precondition; like any
  other call they leave no trace when the checked arithmetic aborts them.
\<close>

theorem rejection_is_atomic:
  "(\<forall>err. registerNode e md p = Inl err \<longrightarrow> commit p (registerNode e md p) = (p, [])) \<and>
   (\<forall>err. recordUptime e nodeId minutesUp p = Inl err \<longrightarrow>
      commit p (recordUptime e nodeId minutesUp p) = (p, [])) \<and>
   (owner (nodes p nodeId) \<noteq> msg_sender e \<longrightarrow>
      claimReward e nodeId p = Inl (Revert ''Not owner'') \<and>
      commit p (claimReward e nodeId p) = (p, [])) \<and>
   (v = 0 \<longrightarrow>
      stakeToNode e v nodeId p = Inl (Revert ''Send funds'') \<and>
      commit p (stakeToNode e v nodeId p) = (p, [])) \<and>
   (\<not> isActive (nodeTypeConfigs s ntype) \<or> v < minETHStake (nodeTypeConfigs s ntype) \<or>
    d < minDPNStake (nodeTypeConfigs s ntype) \<longrightarrow>
      (\<exists>err. mintNodeRights e v ntype d md s = Inl err) \<and>
      commit s (mintNodeRights e v ntype d md s) = (s, [])) \<and>
   (ownerOf s tokenId = 0 \<or> ownerOf s tokenId \<noteq> msg_sender e \<or>
    status (nodeRights s tokenId) \<noteq> ACTIVE \<longrightarrow>
      (\<exists>err. upgradeNode e v tokenId d s = Inl err) \<and>
      commit s (upgradeNode e v tokenId d s) = (s, [])) \<and>
   (ownerOf s tokenId = 0 \<or>
    \<not> (msg_sender e = contract_owner s \<or> msg_sender e = participationContract s) \<or>
    status (nodeRights s tokenId) = TERMINATED \<longrightarrow>
      (\<exists>err. updatePerformance e tokenId u score s = Inl err) \<and>
      commit s (updatePerformance e tokenId u score s) = (s, [])) \<and>
   (ownerOf s tokenId = 0 \<or> ownerOf s tokenId \<noteq> msg_sender e \<longrightarrow>
      (\<exists>err. bridgeToChain e tokenId chain s = Inl err) \<and>
      commit s (bridgeToChain e tokenId chain s) = (s, [])) \<and>
   (\<forall>c err. exec e c s = Inl err \<longrightarrow> commit s (exec e c s) = (s, []))"
proof (intro conjI)
  show "owner (nodes p nodeId) \<noteq> msg_sender e \<longrightarrow>
      claimReward e nodeId p = Inl (Revert ''Not owner'') \<and>
      commit p (claimReward e nodeId p) = (p, [])"
    by (simp add: claimReward_def commit_def)
  show "v = 0 \<longrightarrow>
      stakeToNode e v nodeId p = Inl (Revert ''Send funds'') \<and>
      commit p (stakeToNode e v nodeId p) = (p, [])"
    by (simp add: stakeToNode_def commit_def)
  show "\<not> isActive (nodeTypeConfigs s ntype) \<or> v < minETHStake (nodeTypeConfigs s ntype) \<or>
    d < minDPNStake (nodeTypeConfigs s ntype) \<longrightarrow>
      (\<exists>err. mintNodeRights e v ntype d md s = Inl err) \<and>
      commit s (mintNodeRights e v ntype d md s) = (s, [])"
    by (auto simp: mintNodeRights_def commit_def Let_def)
  show "ownerOf s tokenId = 0 \<or> ownerOf s tokenId \<noteq> msg_sender e \<or>
    status (nodeRights s tokenId) \<noteq> ACTIVE \<longrightarrow>
      (\<exists>err. upgradeNode e v tokenId d s = Inl err) \<and>
      commit s (upgradeNode e v tokenId d s) = (s, [])"
    by (auto simp: upgradeNode_def commit_def)
  show "ownerOf s tokenId = 0 \<or>
    \<not> (msg_sender e = contract_owner s \<or> msg_sender e = participationContract s) \<or>
    status (nodeRights s tokenId) = TERMINATED \<longrightarrow>
      (\<exists>err. updatePerformance e tokenId u score s = Inl err) \<and>
      commit s (updatePerformance e tokenId u score s) = (s, [])"
    by (auto simp: updatePerformance_def commit_def Let_def)
  show "ownerOf s tokenId = 0 \<or> ownerOf s tokenId \<noteq> msg_sender e \<longrightarrow>
      (\<exists>err. bridgeToChain e tokenId chain s = Inl err) \<and>
      commit s (bridgeToChain e tokenId chain s) = (s, [])"
    by (auto simp: bridgeToChain_def commit_def)
qed (simp_all add: commit_def)

theorem rejection_is_atomic_witness:
  "commit deploy_Participation
     (claimReward \<lparr>msg_sender = 2, block_timestamp = 2000\<rparr> 0 deploy_Participation)
     = (deploy_Participation, []) \<and>
   commit deploy_Participation
     (stakeToNode \<lparr>msg_sender = 2, block_timestamp = 2000\<rparr> 0 0 deploy_Participation)
     = (deploy_Participation, []) \<and>
   commit scenario_minted
     (mintNodeRights \<lparr>msg_sender = 2, block_timestamp = 2000\<rparr> 900000000000000000 STORAGE
        (1000 * ether) ''metadata'' scenario_minted) = (scenario_minted, []) \<and>
   commit scenario_minted
     (upgradeNode \<lparr>msg_sender = 2, block_timestamp = 2000\<rparr> 900000000000000000 0
        (1000 * ether) scenario_minted) = (scenario_minted, []) \<and>
   commit scenario_minted
     (updatePerformance \<lparr>msg_sender = 2, block_timestamp = 2000\<rparr> 0 1800 7000
        scenario_minted) = (scenario_minted, []) \<and>
   commit scenario_minted
     (bridgeToChain \<lparr>msg_sender = 2, block_timestamp = 2000\<rparr> 0 ''polygon''
        scenario_minted) = (scenario_minted, [])"
  using
    rejection_is_atomic [of "\<lparr>msg_sender = 2, block_timestamp = 2000\<rparr>" "''metadata''"
      deploy_Participation 0 0 0 scenario_minted STORAGE "1000 * ether" 0 1800 7000
      "''polygon''"]
    rejection_is_atomic [of "\<lparr>msg_sender = 2, block_timestamp = 2000\<rparr>" "''metadata''"
      deploy_Participation 0 0 900000000000000000 scenario_minted STORAGE "1000 * ether" 0
      1800 7000 "''polygon''"]
  by (simp add: scenario_minted_fields ownerOf_def deploy_Participation_def commit_def)


section \<open>The owner index\<close>

lemma swap_pop:
  assumes "distinct xs" and "i < length xs"
  shows "distinct (butlast (xs[i := xs ! (length xs - 1)])) \<and>
         set (butlast (xs[i := xs ! (length xs - 1)])) = set xs - {xs ! i}"
proof (cases xs rule: rev_cases)
  case Nil
  with assms show ?thesis by simp
next
  case (snoc ys l)
  show ?thesis
  proof (cases "i < length ys")
    case True
    from assms snoc have d: "distinct ys" and l: "l \<notin> set ys" by auto
    from True snoc have eq: "butlast (xs[i := xs ! (length xs - 1)]) = ys[i := l]"
      by (simp add: list_update_append nth_append)
    from d True l have "distinct (ys[i := l])"
      by (simp add: distinct_list_update)
    moreover from d True have "set (ys[i := l]) = insert l (set ys - {ys ! i})"
      by (rule set_update_distinct)
    moreover from True snoc have "xs ! i = ys ! i" by (simp add: nth_append)
    moreover from True have "ys ! i \<in> set ys" by simp
    ultimately show ?thesis using eq snoc l by auto
  next
    case False
    with assms snoc have i: "i = length ys" by simp
    with snoc have "butlast (xs[i := xs ! (length xs - 1)]) = ys"
      by (simp add: list_update_append nth_append)
    moreover from i snoc have "xs ! i = l" by simp
    ultimately show ?thesis using assms snoc by auto
  qed
qed

lemma removeFromNodes_spec:
  "distinct xs \<Longrightarrow>
     distinct (removeFromNodes i t xs) \<and>
     set (removeFromNodes i t xs) = (if t \<in> set (drop i xs) then set xs - {t} else set xs)"
proof (induction i t xs rule: removeFromNodes.induct)
  case (1 i t xs)
  show ?case
  proof (cases "i < length xs")
    case False
    then show ?thesis using 1 by (simp add: removeFromNodes.simps [of i t xs])
  next
    case True
    then have dr: "drop i xs = xs ! i # drop (Suc i) xs"
      by (simp add: Cons_nth_drop_Suc)
    show ?thesis
    proof (cases "xs ! i = t")
      case True
      with \<open>i < length xs\<close> swap_pop [OF "1.prems" \<open>i < length xs\<close>] dr show ?thesis
        by (simp add: removeFromNodes.simps [of i t xs])
    next
      case False
      with \<open>i < length xs\<close> "1.IH" "1.prems" dr show ?thesis
        by (simp add: removeFromNodes.simps [of i t xs])
    qed
  qed
qed

lemma removeFromNodes_0:
  "distinct xs \<Longrightarrow>
     distinct (removeFromNodes 0 t xs) \<and> set (removeFromNodes 0 t xs) = set xs - {t}"
  using removeFromNodes_spec [of xs 0 t] by auto

lemma transferFrom_effect:
  assumes "approvals_wf s" and "msg_sender e \<noteq> 0"
    and "transferFrom e from to tokenId s = Inr (s', evs)"
  shows "from \<noteq> 0 \<and> to \<noteq> 0 \<and> owners s tokenId = from \<and>
         owners s' = (owners s)(tokenId := to) \<and>
         tokenApprovals s' = (tokenApprovals s)(tokenId := 0) \<and>
         operatorApprovals s' = operatorApprovals s \<and>
         nodeRights s' = nodeRights s \<and>
         ownerNodes s' =
           (if from = to then ownerNodes s
            else (ownerNodes s)(from := removeFromNodes 0 tokenId (ownerNodes s from),
                                to := ownerNodes s to @ [tokenId]))"
  using assms
  by (auto simp: transferFrom_def ledger_defs approvals_wf_def Let_def split: if_splits)


lemma mintNodeRights_effect:
  assumes "mintNodeRights e v t d md s = Inr (s', evs)" and "msg_sender e \<noteq> 0"
  shows "owners s (tokenIdCounter s) = 0 \<and>
         owners s' = (owners s)(tokenIdCounter s := msg_sender e) \<and>
         ownerNodes s' = (ownerNodes s)(msg_sender e :=
                            ownerNodes s (msg_sender e) @ [tokenIdCounter s]) \<and>
         tokenApprovals s' = tokenApprovals s \<and>
         operatorApprovals s' = operatorApprovals s \<and>
         (\<forall>t'. t' \<noteq> tokenIdCounter s \<longrightarrow> nodeRights s' t' = nodeRights s t')"
  using assms
  by (auto simp: mintNodeRights_def ledger_defs host_defs Let_def split: if_splits)

lemma exec_frame:
  assumes "exec e c s = Inr (s', evs)"
    and "\<forall>v t d md. c \<noteq> MintNodeRights v t d md"
    and "\<forall>from to tokenId. c \<noteq> TransferFrom from to tokenId"
  shows "owners s' = owners s \<and> ownerNodes s' = ownerNodes s"
  using assms
  by (cases c)
     (auto simp: upgradeNode_def updatePerformance_def applySlashing_def bridgeToChain_def
        approve_def setApprovalForAll_def setParticipationContract_def
        setDPNTokenContract_def updateNodeTypeConfig_def transferOwnership_def
        renounceOwnership_def host_defs Let_def and_then_def
        split: if_splits sum.splits)


lemma exec_approvals_wf:
  assumes "approvals_wf s" and "msg_sender e \<noteq> 0" and "exec e c s = Inr (s', evs)"
  shows "approvals_wf s'"
proof (cases c)
  case (MintNodeRights v t d md)
  with assms mintNodeRights_effect [of e v t d md s s' evs] show ?thesis
    by (auto simp: approvals_wf_def)
next
  case (TransferFrom src dst tokenId)
  with assms transferFrom_effect [of s e src dst tokenId s' evs] show ?thesis
    by (auto simp: approvals_wf_def)
next
  case (Approve dst tokenId)
  with assms show ?thesis
    by (auto simp: approvals_wf_def approve_def ownerOf_def Let_def split: if_splits)
next
  case (SetApprovalForAll operator approved)
  with assms show ?thesis
    by (auto simp: approvals_wf_def setApprovalForAll_def split: if_splits)
qed (insert assms, auto simp: approvals_wf_def upgradeNode_def updatePerformance_def
        applySlashing_def bridgeToChain_def setParticipationContract_def
        setDPNTokenContract_def updateNodeTypeConfig_def transferOwnership_def
        renounceOwnership_def host_defs Let_def and_then_def
        split: if_splits sum.splits)

lemma transfer_index_inverse:
  assumes inv: "index_inverse s" and wf: "approvals_wf s" and "msg_sender e \<noteq> 0"
    and tr: "transferFrom e from to tokenId s = Inr (s', evs)"
  shows "index_inverse s'"
proof -
  from transferFrom_effect [OF wf \<open>msg_sender e \<noteq> 0\<close> tr]
  have f: "from \<noteq> 0" and t: "to \<noteq> 0" and o: "owners s tokenId = from"
    and o': "owners s' = (owners s)(tokenId := to)"
    and n': "ownerNodes s' =
           (if from = to then ownerNodes s
            else (ownerNodes s)(from := removeFromNodes 0 tokenId (ownerNodes s from),
                                to := ownerNodes s to @ [tokenId]))"
    by simp_all
  show ?thesis
  proof (cases "from = to")
    case True
    with o o' have "owners s' = owners s" by auto
    with True n' inv show ?thesis by (simp add: index_inverse_def ownerOf_def)
  next
    case False
    from inv f have df: "distinct (ownerNodes s from)"
      and sf: "set (ownerNodes s from) = {x. owners s x = from}"
      by (simp_all add: index_inverse_def ownerOf_def)
    from inv t have dt: "distinct (ownerNodes s to)"
      and st: "set (ownerNodes s to) = {x. owners s x = to}"
      by (simp_all add: index_inverse_def ownerOf_def)
    from removeFromNodes_0 [OF df, of tokenId]
    have rf: "distinct (removeFromNodes 0 tokenId (ownerNodes s from))"
      "set (removeFromNodes 0 tokenId (ownerNodes s from)) = set (ownerNodes s from) - {tokenId}"
      by simp_all
    show ?thesis
      unfolding index_inverse_def ownerOf_def
    proof (intro allI impI)
      fix a :: address
      assume a: "a \<noteq> 0"
      consider "a = from" | "a = to" | "a \<noteq> from" "a \<noteq> to" by blast
      then show "distinct (ownerNodes s' a) \<and> set (ownerNodes s' a) = {t. owners s' t = a}"
      proof cases
        case 1
        with False n' o' rf sf o show ?thesis by auto
      next
        case 2
        with False n' o' dt st o show ?thesis by auto
      next
        case 3
        with inv a have "distinct (ownerNodes s a)" "set (ownerNodes s a) = {x. owners s x = a}"
          by (simp_all add: index_inverse_def ownerOf_def)
        with 3 False n' o' o show ?thesis by auto
      qed
    qed
  qed
qed

lemma mint_index_inverse:
  assumes inv: "index_inverse s" and "msg_sender e \<noteq> 0"
    and m: "mintNodeRights e v t d md s = Inr (s', evs)"
  shows "index_inverse s'"
proof -
  from mintNodeRights_effect [OF m \<open>msg_sender e \<noteq> 0\<close>]
  have o: "owners s (tokenIdCounter s) = 0"
    and o': "owners s' = (owners s)(tokenIdCounter s := msg_sender e)"
    and n': "ownerNodes s' = (ownerNodes s)(msg_sender e :=
                            ownerNodes s (msg_sender e) @ [tokenIdCounter s])"
    by simp_all
  show ?thesis
    unfolding index_inverse_def ownerOf_def
  proof (intro allI impI)
    fix a :: address
    assume a: "a \<noteq> 0"
    with inv have "distinct (ownerNodes s a)" "set (ownerNodes s a) = {x. owners s x = a}"
      by (simp_all add: index_inverse_def ownerOf_def)
    with a o o' n'
    show "distinct (ownerNodes s' a) \<and> set (ownerNodes s' a) = {t. owners s' t = a}"
      by (cases "a = msg_sender e") auto
  qed
qed

lemma exec_index_inverse:
  assumes "index_inverse s" and "approvals_wf s" and "msg_sender e \<noteq> 0"
    and "exec e c s = Inr (s', evs)"
  shows "index_inverse s'"
proof -
  consider v t d md where "c = MintNodeRights v t d md"
    | src dst tokenId where "c = TransferFrom src dst tokenId"
    | "\<forall>v t d md. c \<noteq> MintNodeRights v t d md"
      "\<forall>from to tokenId. c \<noteq> TransferFrom from to tokenId"
    by blast
  then show ?thesis
  proof cases
    case 1
    with assms mint_index_inverse show ?thesis by auto
  next
    case 2
    with assms transfer_index_inverse show ?thesis by auto
  next
    case 3
    from exec_frame [OF assms(4) 3] assms(1) show ?thesis
      by (simp add: index_inverse_def ownerOf_def)
  qed
qed

lemma reaches_ledger_inv:
  "reaches s s' \<Longrightarrow> index_inverse s \<and> approvals_wf s \<Longrightarrow> index_inverse s' \<and> approvals_wf s'"
proof (induction rule: reaches.induct)
  case (reaches_refl s)
  then show ?case .
next
  case (reaches_step s s1 e c s2 evs)
  then have "index_inverse s1" "approvals_wf s1" by simp_all
  with reaches_step.hyps show ?case
    using exec_index_inverse exec_approvals_wf by blast
qed

lemma deploy_ledger_inv:
  "index_inverse (deploy_NodeRightsNFT d) \<and> approvals_wf (deploy_NodeRightsNFT d)"
  by (simp add: index_inverse_def approvals_wf_def deploy_NodeRightsNFT_def ownerOf_def)

lemma reachable_ledger_inv: "reachable s \<Longrightarrow> index_inverse s \<and> approvals_wf s"
  unfolding reachable_def using reaches_ledger_inv deploy_ledger_inv by blast

text \<open>
  Claim C8. In every reachable state the owner\<rightarrow>tokens index is exactly the inverse of
  the token\<rightarrow>owner ledger: each account's list holds the tokens it owns, each once.
  A transfer of a token to a different owner removes the id from the previous owner's
  list and appends it to the new owner's list in the same call, and the state after it
  again has the index as the inverse of the ledger.
\<close>

theorem owner_index_is_inverse:
  assumes "reachable s"
  shows "index_inverse s \<and>
    (\<forall>e from to tokenId s' evs.
       msg_sender e \<noteq> 0 \<and> transferFrom e from to tokenId s = Inr (s', evs) \<and> from \<noteq> to \<longrightarrow>
         ownerOf s tokenId = from \<and> ownerOf s' tokenId = to \<and>
         tokenId \<in> set (ownerNodes s from) \<and>
         tokenId \<notin> set (ownerNodes s' from) \<and>
         set (ownerNodes s' from) = set (ownerNodes s from) - {tokenId} \<and>
         ownerNodes s' to = ownerNodes s to @ [tokenId] \<and>
         index_inverse s')"
proof -
  from reachable_ledger_inv [OF assms] have inv: "index_inverse s" and wf: "approvals_wf s"
    by simp_all
  have move: "ownerOf s tokenId = from \<and> ownerOf s' tokenId = to \<and>
         tokenId \<in> set (ownerNodes s from) \<and>
         tokenId \<notin> set (ownerNodes s' from) \<and>
         set (ownerNodes s' from) = set (ownerNodes s from) - {tokenId} \<and>
         ownerNodes s' to = ownerNodes s to @ [tokenId] \<and>
         index_inverse s'"
    if "msg_sender e \<noteq> 0" "transferFrom e from to tokenId s = Inr (s', evs)" "from \<noteq> to"
    for e "from" to tokenId s' evs
  proof -
    from transferFrom_effect [OF wf that(1,2)] that(3)
    have f: "from \<noteq> 0" and o: "owners s tokenId = from"
      and o': "owners s' = (owners s)(tokenId := to)"
      and n': "ownerNodes s' =
            (ownerNodes s)(from := removeFromNodes 0 tokenId (ownerNodes s from),
                           to := ownerNodes s to @ [tokenId])"
      by simp_all
    from inv f have df: "distinct (ownerNodes s from)"
      and sf: "set (ownerNodes s from) = {x. owners s x = from}"
      by (simp_all add: index_inverse_def ownerOf_def)
    from removeFromNodes_0 [OF df, of tokenId]
    have "set (removeFromNodes 0 tokenId (ownerNodes s from)) = set (ownerNodes s from) - {tokenId}"
      by simp
    with o o' n' sf that(3) transfer_index_inverse [OF inv wf that(1,2)]
    show ?thesis by (auto simp: ownerOf_def)
  qed
  from inv move show ?thesis by blast
qed

theorem owner_index_is_inverse_witness:
  "reachable scenario_minted \<and>
   index_inverse scenario_minted \<and>
   transferFrom \<lparr>msg_sender = 3, block_timestamp = 2000\<rparr> 3 2 0 scenario_minted =
     Inr (scenario_transferred, [Transfer 3 2 0]) \<and>
   ownerNodes scenario_minted 3 = [0] \<and>
   ownerOf scenario_transferred 0 = 2 \<and>
   0 \<notin> set (ownerNodes scenario_transferred 3) \<and>
   ownerNodes scenario_transferred 2 = [0] \<and>
   index_inverse scenario_transferred"
proof -
  note fact = owner_index_is_inverse [OF reachable_scenario_minted]
  from fact have inv: "index_inverse scenario_minted" by (rule conjunct1)
  from fact have "msg_sender \<lparr>msg_sender = 3, block_timestamp = 2000\<rparr> \<noteq> 0 \<and>
      transferFrom \<lparr>msg_sender = 3, block_timestamp = 2000\<rparr> 3 2 0 scenario_minted =
        Inr (scenario_transferred, [Transfer 3 2 0]) \<and> (3::nat) \<noteq> 2 \<longrightarrow>
      ownerOf scenario_transferred 0 = 2 \<and>
      0 \<notin> set (ownerNodes scenario_transferred 3) \<and>
      ownerNodes scenario_transferred 2 = ownerNodes scenario_minted 2 @ [0] \<and>
      index_inverse scenario_transferred"
    by blast
  with scenario_transferred_result inv reachable_scenario_minted show ?thesis
    by (simp add: scenario_minted_fields)
qed

end
